theory Spec2Isabelle
  imports Complex_Main "HOL-Library.AList" "HOL-Library.Log_Nat"
begin

section \<open>Python values, dictionaries and exceptions\<close>

text \<open>
  The repository is Python. The values that travel between its components (contacts,
  campaign data, log entries, persisted artifacts) are JSON-shaped: \<open>None\<close>, booleans,
  integers, floats, strings, lists and dictionaries with string keys. A float is given by
  the rational number it denotes (every finite IEEE-754 double is one). A dictionary keeps its
  insertion order, so it is an association list; a lookup reads the first entry of a key
  and \<open>d[k] = v\<close> replaces the entry in place or appends a new one at the end
  (\<^const>\<open>AList.update\<close>).
\<close>

datatype pyval =
    PNone
  | PBool bool
  | PInt int
  | PFloat rat
  | PStr string
  | PList "pyval list"
  | PDict "(string \<times> pyval) list"

type_synonym pydict = "(string \<times> pyval) list"

datatype py_error =
    KeyError string
  | TypeError
  | AttributeError
  | FileNotFoundError
  | FileExistsError
  | IsADirectoryError
  | NotADirectoryError
  | JSONDecodeError

text \<open>\<open>d.get(k, default)\<close>.\<close>

definition dict_get :: "pydict \<Rightarrow> string \<Rightarrow> pyval \<Rightarrow> pyval" where
  "dict_get d k dflt = (case map_of d k of None \<Rightarrow> dflt | Some v \<Rightarrow> v)"

text \<open>\<open>d[k]\<close>: a missing key raises \<open>KeyError\<close>.\<close>

definition dict_item :: "pydict \<Rightarrow> string \<Rightarrow> py_error + pyval" where
  "dict_item d k = (case map_of d k of None \<Rightarrow> Inl (KeyError k) | Some v \<Rightarrow> Inr v)"

text \<open>
  Lists and dictionaries are unhashable: using one as a dictionary key, or testing it
  for membership in a dictionary, raises \<open>TypeError\<close>.
\<close>

fun hashable :: "pyval \<Rightarrow> bool" where
  "hashable (PList _) = False"
| "hashable (PDict _) = False"
| "hashable _ = True"

section \<open>Configuration (config.py)\<close>

definition PERSONAS :: "(string \<times> pydict) list" where
  "PERSONAS =
    [(''founders'',
        [(''name'', PStr ''Founders / Decision-Makers''),
         (''focus'', PList [PStr ''ROI'', PStr ''growth'', PStr ''efficiency'',
                            PStr ''competitive advantage'']),
         (''tone'', PStr ''executive, data-driven, strategic'')]),
     (''creatives'',
        [(''name'', PStr ''Creative Professionals''),
         (''focus'', PList [PStr ''inspiration'', PStr ''time-saving tools'',
                            PStr ''creativity'', PStr ''design'']),
         (''tone'', PStr ''inspiring, visual, innovative'')]),
     (''operations'',
        [(''name'', PStr ''Operations Managers''),
         (''focus'', PList [PStr ''workflows'', PStr ''integrations'', PStr ''reliability'',
                            PStr ''scalability'']),
         (''tone'', PStr ''technical, practical, process-oriented'')])]"

definition persona_keys :: "string list" where
  "persona_keys = map fst PERSONAS"

definition DATA_DIR :: string where
  "DATA_DIR = ''data''"

section \<open>The CRM client (src/crm\_integration.py)\<close>

subsection \<open>Segmentation\<close>

text \<open>
  \<^verbatim>\<open>
  def segment_contacts(self, contacts):
      segments = {persona: [] for persona in self.config.PERSONAS.keys()}
      for contact in contacts:
          persona = contact.get('persona', 'founders')
          if persona in segments:
              segments[persona].append(contact)
      return segments
  \<close>
  The tag of a contact is whatever value its \<open>persona\<close> entry holds. A tag that is not
  a string is never a key of \<open>segments\<close>; an unhashable one makes the membership test
  raise.
\<close>

type_synonym segments = "(string \<times> pydict list) list"

definition persona_tag :: "pydict \<Rightarrow> pyval" where
  "persona_tag contact = dict_get contact ''persona'' (PStr ''founders'')"

definition in_segments :: "pyval \<Rightarrow> segments \<Rightarrow> bool" where
  "in_segments persona segs =
     (case persona of PStr p \<Rightarrow> p \<in> set (map fst segs) | _ \<Rightarrow> False)"

definition segment_append :: "string \<Rightarrow> pydict \<Rightarrow> segments \<Rightarrow> segments" where
  "segment_append p contact segs =
     map (\<lambda>(k, group). if k = p then (k, group @ [contact]) else (k, group)) segs"

fun segment_loop :: "segments \<Rightarrow> pydict list \<Rightarrow> py_error + segments" where
  "segment_loop segs [] = Inr segs"
| "segment_loop segs (contact # contacts) =
     (let persona = persona_tag contact in
      if \<not> hashable persona then Inl TypeError
      else if in_segments persona segs then
        (case persona of
           PStr p \<Rightarrow> segment_loop (segment_append p contact segs) contacts
         | _ \<Rightarrow> segment_loop segs contacts)
      else segment_loop segs contacts)"

definition segment_contacts :: "pydict list \<Rightarrow> py_error + segments" where
  "segment_contacts contacts = segment_loop (map (\<lambda>persona. (persona, [])) persona_keys) contacts"

subsection \<open>The client, the network and the sources of nondeterminism\<close>

text \<open>
  The client object holds the credential and the \<open>mock_mode\<close> flag. Only the flag is
  ever assigned after construction.
\<close>

record crm =
  api_key :: "string option"
  base_url :: string
  mock_mode :: bool

definition HUBSPOT_BASE_URL :: string where
  "HUBSPOT_BASE_URL = ''https://api.hubapi.com''"

text \<open>
  \<^verbatim>\<open>
  self.mock_mode = (not self.api_key or
                    self.api_key == 'your_hubspot_key_here' or
                    len(self.api_key) < 20)
  \<close>
\<close>

definition crm_init :: "string option \<Rightarrow> crm" where
  "crm_init key =
     \<lparr>api_key = key, base_url = HUBSPOT_BASE_URL,
      mock_mode = (case key of
                     None \<Rightarrow> True
                   | Some k \<Rightarrow> k = [] \<or> k = ''your_hubspot_key_here'' \<or> length k < 20)\<rparr>"

text \<open>
  A call of the \<open>requests\<close> library either yields a response (its status code and its
  body, \<open>None\<close> when the body is not JSON) or raises a transport exception. The network,
  the clock behind \<open>format_timestamp\<close>, Python's string hash and the formatting of an
  arbitrary value inside an f-string are parameters of the model.
\<close>

datatype http_method = GET | POST | PATCH

datatype http_reply = Reply nat "pyval option" | Failed

record env =
  http :: "http_method \<Rightarrow> string \<Rightarrow> pyval \<Rightarrow> http_reply"
  now :: string
  str_hash :: "string \<Rightarrow> int"
  fmt :: "pyval \<Rightarrow> string"

definition format_timestamp :: "env \<Rightarrow> string" where
  "format_timestamp e = now e"

definition py_format :: "env \<Rightarrow> pyval \<Rightarrow> string" where
  "py_format e v = (case v of PStr s \<Rightarrow> s | _ \<Rightarrow> fmt e v)"

text \<open>\<open>response.raise_for_status()\<close> raises \<open>HTTPError\<close> for a 4xx or 5xx status.\<close>

definition is_http_error :: "nat \<Rightarrow> bool" where
  "is_http_error code = (400 \<le> code \<and> code < 600)"

text \<open>
  The random module: a stream of raw draws and the position reached. \<open>randint(a, b)\<close>
  yields an integer of \<open>[a, b]\<close>; every call of the program has \<open>a \<le> b\<close>.
\<close>

record rng =
  draws :: "nat \<Rightarrow> nat"
  pos :: nat

definition next_raw :: "rng \<Rightarrow> nat \<times> rng" where
  "next_raw g = (draws g (pos g), g\<lparr>pos := pos g + 1\<rparr>)"

definition randint :: "int \<Rightarrow> int \<Rightarrow> rng \<Rightarrow> int \<times> rng" where
  "randint a b g = (let (r, g') = next_raw g in (a + int r mod (b - a + 1), g'))"

fun string_of_nat :: "nat \<Rightarrow> string" where
  "string_of_nat n =
     (if n < 10 then [char_of (48 + n)]
      else string_of_nat (n div 10) @ [char_of (48 + n mod 10)])"

definition string_of_int :: "int \<Rightarrow> string" where
  "string_of_int i = (if i < 0 then CHR ''-'' # string_of_nat (nat (- i)) else string_of_nat (nat i))"

text \<open>\<open>v[k]\<close> for a string \<open>k\<close>, and \<open>v.items()\<close>: only a dictionary supports them.\<close>

definition subscript :: "pyval \<Rightarrow> string \<Rightarrow> py_error + pyval" where
  "subscript v k = (case v of PDict d \<Rightarrow> dict_item d k | _ \<Rightarrow> Inl TypeError)"

definition dict_items :: "pyval \<Rightarrow> py_error + pydict" where
  "dict_items v = (case v of PDict d \<Rightarrow> Inr d | _ \<Rightarrow> Inl AttributeError)"

text \<open>\<open>{**d, **extra}\<close>: the entries of \<open>extra\<close> are stored into \<open>d\<close> one by one.\<close>

definition dict_merge :: "pydict \<Rightarrow> pydict \<Rightarrow> pydict" where
  "dict_merge d extra = foldl (\<lambda>acc (k, v). AList.update k v acc) d extra"

subsection \<open>Mock responses\<close>

definition mock_contact_response :: "env \<Rightarrow> string \<Rightarrow> pydict \<Rightarrow> pyval" where
  "mock_contact_response e email properties =
     PDict [(''id'', PStr (''mock_'' @ string_of_nat (nat \<bar>str_hash e email\<bar> mod 10000))),
            (''properties'', PDict (dict_merge [(''email'', PStr email)] properties)),
            (''createdAt'', PStr (format_timestamp e)),
            (''updatedAt'', PStr (format_timestamp e)),
            (''mock'', PBool True)]"

definition mock_campaign_response :: "env \<Rightarrow> pydict \<Rightarrow> string \<Rightarrow> rng \<Rightarrow> pyval \<times> rng" where
  "mock_campaign_response e campaign_data persona g =
     (let (n, g') = randint 1000 9999 g in
      (PDict [(''id'', PStr (''campaign_'' @ persona @ ''_'' @ string_of_int n)),
              (''status'', PStr ''SCHEDULED''),
              (''created'', PStr (format_timestamp e)),
              (''persona'', PStr persona),
              (''mock'', PBool True)], g'))"

text \<open>
  \<^verbatim>\<open>
  def _mock_campaign_distribution(self, campaign_data):
      results = {}
      for persona in campaign_data['newsletters'].keys():
          results[persona] = {
              'id': f"campaign_{persona}_{random.randint(1000, 9999)}",
              'status': 'SIMULATED', 'created': format_timestamp(), 'persona': persona,
              'recipients': random.randint(80, 100),
              'subject': campaign_data['newsletters'][persona]['subject_line'],
              'mock': True }
      return results
  \<close>
\<close>

fun mock_distribution_loop ::
  "env \<Rightarrow> pyval \<Rightarrow> string list \<Rightarrow> pydict \<Rightarrow> rng \<Rightarrow> (py_error + pydict) \<times> rng" where
  "mock_distribution_loop e newsletters [] results g = (Inr results, g)"
| "mock_distribution_loop e newsletters (persona # rest) results g =
     (let (n, g1) = randint 1000 9999 g;
          (recipients, g2) = randint 80 100 g1 in
      case subscript newsletters persona of
        Inl err \<Rightarrow> (Inl err, g2)
      | Inr newsletter \<Rightarrow>
          (case subscript newsletter ''subject_line'' of
             Inl err \<Rightarrow> (Inl err, g2)
           | Inr subject \<Rightarrow>
               mock_distribution_loop e newsletters rest
                 (AList.update persona
                    (PDict [(''id'', PStr (''campaign_'' @ persona @ ''_'' @ string_of_int n)),
                            (''status'', PStr ''SIMULATED''),
                            (''created'', PStr (format_timestamp e)),
                            (''persona'', PStr persona),
                            (''recipients'', PInt recipients),
                            (''subject'', subject),
                            (''mock'', PBool True)])
                    results) g2))"

definition mock_campaign_distribution :: "env \<Rightarrow> pydict \<Rightarrow> rng \<Rightarrow> (py_error + pydict) \<times> rng" where
  "mock_campaign_distribution e campaign_data g =
     (case dict_item campaign_data ''newsletters'' of
        Inl err \<Rightarrow> (Inl err, g)
      | Inr newsletters \<Rightarrow>
          (case dict_items newsletters of
             Inl err \<Rightarrow> (Inl err, g)
           | Inr items \<Rightarrow> mock_distribution_loop e newsletters (map fst items) [] g))"

subsection \<open>Sending a campaign\<close>

text \<open>
  \<^verbatim>\<open>
  def _check_marketing_access(self):
      if self.mock_mode:
          return False
      try:
          response = requests.get(f"{self.base_url}/marketing/v3/emails",
                                  headers=self.headers, params={'limit': 1}, timeout=5)
          return response.status_code == 200
      except:
          return False
  \<close>
\<close>

definition marketing_url :: "crm \<Rightarrow> string" where
  "marketing_url self = base_url self @ ''/marketing/v3/emails''"

definition check_marketing_access :: "crm \<Rightarrow> env \<Rightarrow> bool" where
  "check_marketing_access self e =
     (if mock_mode self then False
      else (case http e GET (marketing_url self) (PDict [(''limit'', PInt 1)]) of
              Reply code body \<Rightarrow> code = 200
            | Failed \<Rightarrow> False))"

text \<open>
  The payload of one send. The lookups stand outside the \<open>try\<close> block: a missing key
  raises out of \<open>send_campaign\<close>.
\<close>

definition campaign_payload :: "env \<Rightarrow> pydict \<Rightarrow> string \<Rightarrow> pyval \<Rightarrow> py_error + pyval" where
  "campaign_payload e campaign_data persona newsletter =
     (case dict_item campaign_data ''blog_title'' of
        Inl err \<Rightarrow> Inl err
      | Inr title \<Rightarrow>
     (case subscript newsletter ''subject_line'' of
        Inl err \<Rightarrow> Inl err
      | Inr subject \<Rightarrow>
     (case subscript newsletter ''content'' of
        Inl err \<Rightarrow> Inl err
      | Inr content \<Rightarrow>
     (case dict_items newsletter of
        Inl err \<Rightarrow> Inl err
      | Inr entries \<Rightarrow>
     (case dict_item campaign_data ''campaign_id'' of
        Inl err \<Rightarrow> Inl err
      | Inr cid \<Rightarrow>
          Inr (PDict [(''name'', PStr (py_format e title @ '' - '' @ persona)),
                      (''subject'', subject),
                      (''emailBody'', content),
                      (''previewText'', dict_get entries ''preview_text'' (PStr [])),
                      (''campaignName'', cid)]))))))"

text \<open>
  \<^verbatim>\<open>
  for persona, newsletter in campaign_data['newsletters'].items():
      payload = {...}
      try:
          response = requests.post(url, headers=self.headers, json=payload)
          response.raise_for_status()
          results[persona] = response.json()
      except requests.exceptions.HTTPError as e:
          if e.response.status_code in [401, 403]:
              # No marketing access - switch to mock for all
              return self._mock_campaign_distribution(campaign_data)
          results[persona] = self._mock_campaign_response(campaign_data, persona)
      except Exception as e:
          results[persona] = self._mock_campaign_response(campaign_data, persona)
  return results
  \<close>
  The loop returns the results and the random state; it never assigns a field of the
  client.
\<close>

fun send_loop ::
  "crm \<Rightarrow> env \<Rightarrow> pydict \<Rightarrow> (string \<times> pyval) list \<Rightarrow> pydict \<Rightarrow> rng \<Rightarrow> (py_error + pydict) \<times> rng"
  where
  "send_loop self e campaign_data [] results g = (Inr results, g)"
| "send_loop self e campaign_data ((persona, newsletter) # rest) results g =
     (case campaign_payload e campaign_data persona newsletter of
        Inl err \<Rightarrow> (Inl err, g)
      | Inr payload \<Rightarrow>
          (case http e POST (marketing_url self) payload of
             Failed \<Rightarrow>
               (let (r, g') = mock_campaign_response e campaign_data persona g in
                send_loop self e campaign_data rest (AList.update persona r results) g')
           | Reply code body \<Rightarrow>
               if is_http_error code then
                 (if code = 401 \<or> code = 403 then mock_campaign_distribution e campaign_data g
                  else
                    (let (r, g') = mock_campaign_response e campaign_data persona g in
                     send_loop self e campaign_data rest (AList.update persona r results) g'))
               else
                 (case body of
                    None \<Rightarrow>
                      (let (r, g') = mock_campaign_response e campaign_data persona g in
                       send_loop self e campaign_data rest (AList.update persona r results) g')
                  | Some j \<Rightarrow>
                      send_loop self e campaign_data rest (AList.update persona j results) g)))"

text \<open>
  \<^verbatim>\<open>
  def send_campaign(self, campaign_data):
      can_use_marketing = self._check_marketing_access()
      if self.mock_mode or not can_use_marketing:
          return self._mock_campaign_distribution(campaign_data)
      ...
  \<close>
  The model returns the client next to the result, so that a theorem can speak of the
  client's state after the call.
\<close>

definition send_campaign ::
  "crm \<Rightarrow> env \<Rightarrow> pydict \<Rightarrow> rng \<Rightarrow> (py_error + pydict) \<times> crm \<times> rng" where
  "send_campaign self e campaign_data g =
     (let can_use_marketing = check_marketing_access self e in
      if mock_mode self \<or> \<not> can_use_marketing then
        (let (r, g') = mock_campaign_distribution e campaign_data g in (r, self, g'))
      else
        (case dict_item campaign_data ''newsletters'' of
           Inl err \<Rightarrow> (Inl err, self, g)
         | Inr newsletters \<Rightarrow>
             (case dict_items newsletters of
                Inl err \<Rightarrow> (Inl err, self, g)
              | Inr items \<Rightarrow>
                  (let (r, g') = send_loop self e campaign_data items [] g in (r, self, g')))))"

subsection \<open>Logging a campaign\<close>

text \<open>
  \<^verbatim>\<open>
  def log_campaign(self, campaign_data):
      log_entry = {
          'campaign_id': campaign_data['campaign_id'],
          'blog_title': campaign_data['blog_title'],
          'send_date': format_timestamp(),
          'personas': list(campaign_data['newsletters'].keys()),
          'status': 'sent' if not self.mock_mode else 'simulated',
          'mode': 'mock' if self.mock_mode else 'production'
      }
      return log_entry
  \<close>
\<close>

definition log_campaign :: "crm \<Rightarrow> env \<Rightarrow> pydict \<Rightarrow> py_error + pydict" where
  "log_campaign self e campaign_data =
     (case dict_item campaign_data ''campaign_id'' of
        Inl err \<Rightarrow> Inl err
      | Inr cid \<Rightarrow>
     (case dict_item campaign_data ''blog_title'' of
        Inl err \<Rightarrow> Inl err
      | Inr title \<Rightarrow>
     (case dict_item campaign_data ''newsletters'' of
        Inl err \<Rightarrow> Inl err
      | Inr newsletters \<Rightarrow>
     (case dict_items newsletters of
        Inl err \<Rightarrow> Inl err
      | Inr items \<Rightarrow>
          Inr [(''campaign_id'', cid),
               (''blog_title'', title),
               (''send_date'', PStr (format_timestamp e)),
               (''personas'', PList (map (PStr \<circ> fst) items)),
               (''status'', PStr (if \<not> mock_mode self then ''sent'' else ''simulated'')),
               (''mode'', PStr (if mock_mode self then ''mock'' else ''production''))]))))"

subsection \<open>Contacts\<close>

text \<open>
  \<^verbatim>\<open>
  def _get_contact_by_email(self, email):
      if self.mock_mode:
          return f"mock_{abs(hash(email)) % 10000}"
      ...
      try:
          response = requests.post(url, headers=self.headers, json=payload)
          response.raise_for_status()
          results = response.json()
          if results.get('results'):
              return results['results'][0]['id']
          return None
      except:
          return None
  \<close>
  Whatever fails inside the \<open>try\<close> yields \<open>None\<close>: an identifier is returned only when
  the body is a dictionary whose \<open>results\<close> entry is a non-empty list headed by a
  dictionary with an \<open>id\<close>.
\<close>

definition search_payload :: "string \<Rightarrow> pyval" where
  "search_payload email =
     PDict [(''filterGroups'',
       PList [PDict [(''filters'',
         PList [PDict [(''propertyName'', PStr ''email''),
                       (''operator'', PStr ''EQ''),
                       (''value'', PStr email)]])]])]"

definition get_contact_by_email :: "crm \<Rightarrow> env \<Rightarrow> string \<Rightarrow> pyval" where
  "get_contact_by_email self e email =
     (if mock_mode self then PStr (''mock_'' @ string_of_nat (nat \<bar>str_hash e email\<bar> mod 10000))
      else
        (case http e POST (base_url self @ ''/crm/v3/objects/contacts/search'') (search_payload email) of
           Failed \<Rightarrow> PNone
         | Reply code body \<Rightarrow>
             if is_http_error code then PNone
             else
               (case body of
                  Some (PDict results) \<Rightarrow>
                    (case map_of results ''results'' of
                       Some (PList (PDict first # others)) \<Rightarrow>
                         (case map_of first ''id'' of Some i \<Rightarrow> i | None \<Rightarrow> PNone)
                     | _ \<Rightarrow> PNone)
                | _ \<Rightarrow> PNone)))"

text \<open>
  \<^verbatim>\<open>
  def _update_contact(self, contact_id, properties):
      if self.mock_mode:
          return self._mock_contact_response(f"contact_{contact_id}", properties)
      url = f"{self.base_url}/crm/v3/objects/contacts/{contact_id}"
      payload = {"properties": properties}
      try:
          response = requests.patch(url, headers=self.headers, json=payload)
          response.raise_for_status()
          return response.json()
      except:
          return self._mock_contact_response(f"contact_{contact_id}", properties)
  \<close>
\<close>

definition update_contact :: "crm \<Rightarrow> env \<Rightarrow> pyval \<Rightarrow> pydict \<Rightarrow> pyval" where
  "update_contact self e contact_id properties =
     (let mock = mock_contact_response e (''contact_'' @ py_format e contact_id) properties in
      if mock_mode self then mock
      else
        (case http e PATCH (base_url self @ ''/crm/v3/objects/contacts/'' @ py_format e contact_id)
                (PDict [(''properties'', PDict properties)]) of
           Failed \<Rightarrow> mock
         | Reply code body \<Rightarrow>
             if is_http_error code then mock
             else (case body of None \<Rightarrow> mock | Some j \<Rightarrow> j)))"

text \<open>
  \<^verbatim>\<open>
  def create_or_update_contact(self, email, properties):
      if self.mock_mode:
          return self._mock_contact_response(email, properties)
      url = f"{self.base_url}/crm/v3/objects/contacts"
      payload = {"properties": {"email": email, **properties}}
      try:
          response = requests.post(url, headers=self.headers, json=payload)
          if response.status_code == 409:
              contact_id = self._get_contact_by_email(email)
              return self._update_contact(contact_id, properties)
          response.raise_for_status()
          return response.json()
      except requests.exceptions.HTTPError as e:
          if e.response.status_code == 401:
              self.mock_mode = True
              return self._mock_contact_response(email, properties)
          return self._mock_contact_response(email, properties)
      except Exception as e:
          return self._mock_contact_response(email, properties)
  \<close>
  This is the one place of the client that assigns \<open>mock_mode\<close> after construction.
\<close>

definition contact_payload :: "string \<Rightarrow> pydict \<Rightarrow> pyval" where
  "contact_payload email properties =
     PDict [(''properties'', PDict (dict_merge [(''email'', PStr email)] properties))]"

definition create_or_update_contact :: "crm \<Rightarrow> env \<Rightarrow> string \<Rightarrow> pydict \<Rightarrow> pyval \<times> crm" where
  "create_or_update_contact self e email properties =
     (if mock_mode self then (mock_contact_response e email properties, self)
      else
        (case http e POST (base_url self @ ''/crm/v3/objects/contacts'')
                (contact_payload email properties) of
           Failed \<Rightarrow> (mock_contact_response e email properties, self)
         | Reply code body \<Rightarrow>
             if code = 409 then
               (let contact_id = get_contact_by_email self e email in
                (update_contact self e contact_id properties, self))
             else if is_http_error code then
               (if code = 401
                then (mock_contact_response e email properties, self\<lparr>mock_mode := True\<rparr>)
                else (mock_contact_response e email properties, self))
             else
               (case body of
                  None \<Rightarrow> (mock_contact_response e email properties, self)
                | Some j \<Rightarrow> (j, self))))"

text \<open>A reply that the send loop treats as an authentication or authorization failure.\<close>

definition auth_failure :: "http_reply \<Rightarrow> bool" where
  "auth_failure r = (case r of Reply code body \<Rightarrow> code = 401 \<or> code = 403 | Failed \<Rightarrow> False)"

section \<open>Text helpers (Python's str methods)\<close>

text \<open>
  Text is a list of characters; a character is a code point below 256. On this range
  \<open>str.isalnum\<close> holds for the ASCII letters and digits and for the letters and numeric
  characters of Latin-1, and \<open>str.isspace\<close> for the ASCII whitespace, the four
  separator controls, the next-line control and the no-break space.
\<close>

definition isalnum :: "char \<Rightarrow> bool" where
  "isalnum c =
     (let n = (of_char c :: nat) in
        (48 \<le> n \<and> n \<le> 57) \<or> (65 \<le> n \<and> n \<le> 90) \<or> (97 \<le> n \<and> n \<le> 122)
        \<or> n \<in> {170, 178, 179, 181, 185, 186, 188, 189, 190}
        \<or> (192 \<le> n \<and> n \<le> 214) \<or> (216 \<le> n \<and> n \<le> 246) \<or> (248 \<le> n \<and> n \<le> 255))"

definition isspace :: "char \<Rightarrow> bool" where
  "isspace c = ((of_char c :: nat) \<in> {9, 10, 11, 12, 13, 28, 29, 30, 31, 32, 133, 160})"

definition rstrip :: "string \<Rightarrow> string" where
  "rstrip s = rev (dropWhile isspace (rev s))"

definition strip :: "string \<Rightarrow> string" where
  "strip s = dropWhile isspace (rstrip s)"

definition startswith :: "string \<Rightarrow> string \<Rightarrow> bool" where
  "startswith s p = (take (length p) s = p)"

definition endswith :: "string \<Rightarrow> string \<Rightarrow> bool" where
  "endswith s p = (length p \<le> length s \<and> drop (length s - length p) s = p)"

section \<open>Persistence helpers (src/utils.py)\<close>

text \<open>
  \<^verbatim>\<open>
  def sanitize_filename(text):
      return "".join(c for c in text
                     if c.isalnum() or c in (' ', '-', '_')).rstrip()[:50]
  \<close>
\<close>

definition filename_char :: "char \<Rightarrow> bool" where
  "filename_char c = (isalnum c \<or> c \<in> {CHR '' '', CHR ''-'', CHR ''_''})"

definition sanitize_filename :: "string \<Rightarrow> string" where
  "sanitize_filename text = take 50 (rstrip (filter filename_char text))"

text \<open>
  The function does not check the type of its argument, and its callers pass it the title
  of a parsed model response. For a list the generator runs over the elements, for a
  dictionary over the keys: an element is kept whole when \<open>c.isalnum()\<close> holds (a
  non-empty string of alphanumeric characters) or when it equals one of the three strings
  of the tuple; an element that is not a string has no \<open>isalnum\<close>
  (\<open>AttributeError\<close>). A value that cannot be iterated is a \<open>TypeError\<close>.
\<close>

definition str_isalnum :: "string \<Rightarrow> bool" where
  "str_isalnum s = (s \<noteq> [] \<and> list_all isalnum s)"

definition filename_item :: "string \<Rightarrow> bool" where
  "filename_item c = (str_isalnum c \<or> c \<in> {'' '', ''-'', ''_''})"

fun filename_items :: "pyval list \<Rightarrow> py_error + string list" where
  "filename_items [] = Inr []"
| "filename_items (x # xs) =
     (case x of
        PStr c \<Rightarrow>
          (case filename_items xs of
             Inl err \<Rightarrow> Inl err
           | Inr cs \<Rightarrow> Inr (if filename_item c then c # cs else cs))
      | _ \<Rightarrow> Inl AttributeError)"

definition sanitize_filename_value :: "pyval \<Rightarrow> py_error + string" where
  "sanitize_filename_value text =
     (case text of
        PStr s \<Rightarrow> Inr (sanitize_filename s)
      | PList xs \<Rightarrow>
          (case filename_items xs of
             Inl err \<Rightarrow> Inl err
           | Inr cs \<Rightarrow> Inr (take 50 (rstrip (concat cs))))
      | PDict d \<Rightarrow> Inr (take 50 (rstrip (concat (filter filename_item (map fst d)))))
      | _ \<Rightarrow> Inl TypeError)"

section \<open>Cleaning a model response\<close>

text \<open>
  \<^verbatim>\<open>
  # src/content_generator.py
  def clean_response(raw_text):
      if raw_text.startswith("```json"):
          raw_text = raw_text[len("```json"):]
      if raw_text.endswith("```"):
          raw_text = raw_text[:-len("```")]
      return raw_text
  \<close>
  The version of \<open>PerformanceAnalyzer\<close> (src/performance\_analyzer.py) has the same two
  steps and returns \<open>raw_text.strip()\<close>.
\<close>

definition ContentGenerator_clean_response :: "string \<Rightarrow> string" where
  "ContentGenerator_clean_response raw_text =
     (let raw1 = (if startswith raw_text ''```json''
                  then drop (length ''```json'') raw_text else raw_text);
          raw2 = (if endswith raw1 ''```''
                  then take (length raw1 - length ''```'') raw1 else raw1)
      in raw2)"

definition PerformanceAnalyzer_clean_response :: "string \<Rightarrow> string" where
  "PerformanceAnalyzer_clean_response raw_text =
     (let raw1 = (if startswith raw_text ''```json''
                  then drop (length ''```json'') raw_text else raw_text);
          raw2 = (if endswith raw1 ''```''
                  then take (length raw1 - length ''```'') raw1 else raw1)
      in strip raw2)"

section \<open>The file system and the data directories\<close>

text \<open>
  A path names a file (with its text), a directory, or nothing. \<open>os.path.exists\<close> holds
  for files and directories; opening a path for reading raises when nothing is there or
  when it is a directory. \<open>os.path.join\<close> (POSIX) restarts at an absolute second
  component.
\<close>

datatype node = File string | Directory

type_synonym filesystem = "string \<Rightarrow> node option"

definition os_path_exists :: "filesystem \<Rightarrow> string \<Rightarrow> bool" where
  "os_path_exists fs path = (fs path \<noteq> None)"

definition open_read :: "filesystem \<Rightarrow> string \<Rightarrow> py_error + string" where
  "open_read fs path =
     (case fs path of
        None \<Rightarrow> Inl FileNotFoundError
      | Some Directory \<Rightarrow> Inl IsADirectoryError
      | Some (File content) \<Rightarrow> Inr content)"

definition os_path_join :: "string \<Rightarrow> string \<Rightarrow> string" where
  "os_path_join a b =
     (if startswith b ''/'' then b
      else if a = [] \<or> endswith a ''/'' then a @ b
      else a @ ''/'' @ b)"

definition CONTENT_DIR :: string where
  "CONTENT_DIR = os_path_join DATA_DIR ''generated_content''"

definition CAMPAIGNS_DIR :: string where
  "CAMPAIGNS_DIR = os_path_join DATA_DIR ''campaigns''"

definition ANALYTICS_DIR :: string where
  "ANALYTICS_DIR = os_path_join DATA_DIR ''analytics''"

text \<open>
  \<open>json.load(f)\<close> on an opened file. The JSON parser is a parameter: it yields the
  parsed value, or nothing when the text is not JSON (\<open>JSONDecodeError\<close>).
\<close>

definition json_load_file ::
  "(string \<Rightarrow> pyval option) \<Rightarrow> filesystem \<Rightarrow> string \<Rightarrow> py_error + pyval" where
  "json_load_file loads fs path =
     (case open_read fs path of
        Inl err \<Rightarrow> Inl err
      | Inr content \<Rightarrow>
          (case loads content of None \<Rightarrow> Inl JSONDecodeError | Some v \<Rightarrow> Inr v))"

section \<open>The dashboard (dashboard/app.py)\<close>

text \<open>
  What a view function hands to Flask: a text or a JSON body with its status code, a
  rendered template with its context, or an exception that escaped the view.
\<close>

datatype response =
    TextResponse string nat
  | JsonResponse pyval nat
  | Template string "(string \<times> pyval) list"
  | Raised py_error

text \<open>
  \<^verbatim>\<open>
  @app.route('/campaign/<campaign_id>')
  def campaign_detail(campaign_id):
      campaign_file = os.path.join(config.CAMPAIGNS_DIR, f'{campaign_id}_log.json')
      performance_file = os.path.join(config.ANALYTICS_DIR, f'{campaign_id}_performance.json')
      summary_file = os.path.join(config.ANALYTICS_DIR, f'{campaign_id}_summary.json')
      if not os.path.exists(campaign_file):
          return "Campaign not found", 404
      with open(campaign_file, 'r', encoding='utf-8') as f:
          campaign = json.load(f)
      performance = None
      if os.path.exists(performance_file):
          with open(performance_file, 'r', encoding='utf-8') as f:
              performance = json.load(f)
      summary = None
      if os.path.exists(summary_file):
          with open(summary_file, 'r', encoding='utf-8') as f:
              summary = json.load(f)
      return render_template('campaign.html', campaign=campaign,
                             performance=performance, summary=summary)
  \<close>
\<close>

definition campaign_file :: "string \<Rightarrow> string" where
  "campaign_file campaign_id = os_path_join CAMPAIGNS_DIR (campaign_id @ ''_log.json'')"

definition performance_file :: "string \<Rightarrow> string" where
  "performance_file campaign_id = os_path_join ANALYTICS_DIR (campaign_id @ ''_performance.json'')"

definition summary_file :: "string \<Rightarrow> string" where
  "summary_file campaign_id = os_path_join ANALYTICS_DIR (campaign_id @ ''_summary.json'')"

definition load_if_exists ::
  "(string \<Rightarrow> pyval option) \<Rightarrow> filesystem \<Rightarrow> string \<Rightarrow> py_error + pyval" where
  "load_if_exists loads fs path =
     (if os_path_exists fs path then json_load_file loads fs path else Inr PNone)"

definition campaign_detail ::
  "(string \<Rightarrow> pyval option) \<Rightarrow> filesystem \<Rightarrow> string \<Rightarrow> response" where
  "campaign_detail loads fs campaign_id =
     (if \<not> os_path_exists fs (campaign_file campaign_id)
      then TextResponse ''Campaign not found'' 404
      else
        (case json_load_file loads fs (campaign_file campaign_id) of
           Inl err \<Rightarrow> Raised err
         | Inr campaign \<Rightarrow>
        (case load_if_exists loads fs (performance_file campaign_id) of
           Inl err \<Rightarrow> Raised err
         | Inr performance \<Rightarrow>
        (case load_if_exists loads fs (summary_file campaign_id) of
           Inl err \<Rightarrow> Raised err
         | Inr summary \<Rightarrow>
             Template ''campaign.html''
               [(''campaign'', campaign), (''performance'', performance),
                (''summary'', summary)]))))"

text \<open>
  \<^verbatim>\<open>
  @app.route('/api/performance/<campaign_id>')
  def api_performance(campaign_id):
      performance_file = os.path.join(config.ANALYTICS_DIR, f'{campaign_id}_performance.json')
      if not os.path.exists(performance_file):
          return jsonify({'error': 'Performance data not found'}), 404
      with open(performance_file, 'r', encoding='utf-8') as f:
          return jsonify(json.load(f))
  \<close>
\<close>

definition api_performance ::
  "(string \<Rightarrow> pyval option) \<Rightarrow> filesystem \<Rightarrow> string \<Rightarrow> response" where
  "api_performance loads fs campaign_id =
     (if \<not> os_path_exists fs (performance_file campaign_id)
      then JsonResponse (PDict [(''error'', PStr ''Performance data not found'')]) 404
      else
        (case json_load_file loads fs (performance_file campaign_id) of
           Inl err \<Rightarrow> Raised err
         | Inr v \<Rightarrow> JsonResponse v 200))"

section \<open>Floating-point numbers\<close>

text \<open>
  A Python float is an IEEE-754 double. The model carries the rational value of a double
  and rounds the exact result of every operation to the nearest double, ties to even:
  \<open>binade x\<close> is the exponent \<open>e\<close> with \<open>2^e \<le> |x| < 2^(e+1)\<close> (not below the
  exponent of the subnormal range), a double of that binade is a multiple of
  \<open>2^(e-52)\<close>, and \<open>fl x\<close> is the nearest such multiple. Overflow to infinity does
  not occur at the magnitudes of this program and is not modelled.
\<close>

definition round_half_even :: "rat \<Rightarrow> int" where
  "round_half_even x =
     (let f = \<lfloor>x\<rfloor>; d = x - of_int f in
      if d < 1 / 2 then f
      else if 1 / 2 < d then f + 1
      else if even f then f else f + 1)"

definition binade :: "rat \<Rightarrow> int" where
  "binade x = max (bitlen \<lfloor>\<bar>x\<bar> * 2 ^ 1074\<rfloor> - 1075) (- 1022)"

definition ulp :: "rat \<Rightarrow> rat" where
  "ulp x = 2 powi (binade x - 52)"

definition fl :: "rat \<Rightarrow> rat" where
  "fl x = of_int (round_half_even (x / ulp x)) * ulp x"

text \<open>
  \<open>int(x)\<close> truncates toward zero. \<open>round(x, 4)\<close> on a float is correctly rounded:
  the exact value is rounded half-even to four decimals and the decimal result is
  converted to the nearest double.
\<close>

definition py_int :: "rat \<Rightarrow> int" where
  "py_int x = (if 0 \<le> x then \<lfloor>x\<rfloor> else \<lceil>x\<rceil>)"

definition py_round4 :: "rat \<Rightarrow> rat" where
  "py_round4 x = fl (of_int (round_half_even (x * 10000)) / 10000)"

text \<open>
  \<open>random.random()\<close> yields a multiple of \<open>2^-53\<close> in \<open>[0, 1)\<close>, and
  \<open>random.uniform(a, b)\<close> is \<open>a + (b - a) * self.random()\<close> in float arithmetic. The
  bounds are written as decimal literals in the program: each denotes its nearest double.
\<close>

definition random_unit :: "rng \<Rightarrow> rat \<times> rng" where
  "random_unit g = (let (r, g') = next_raw g in (of_int (int r mod 2 ^ 53) / 2 ^ 53, g'))"

definition uniform :: "rat \<Rightarrow> rat \<Rightarrow> rng \<Rightarrow> rat \<times> rng" where
  "uniform a b g =
     (let (u, g') = random_unit g in (fl (fl a + fl (fl (fl b - fl a) * u)), g'))"

section \<open>The performance analyzer (src/performance\_analyzer.py)\<close>

text \<open>
  \<^verbatim>\<open>
  if persona == 'founders':
      open_rate = base_open * 1.1
      click_rate = base_click * 0.9
  elif persona == 'creatives':
      open_rate = base_open * 1.2
      click_rate = base_click * 1.3
  else:  # operations
      open_rate = base_open
      click_rate = base_click * 1.1
  open_rate = min(open_rate, 0.95)
  click_rate = min(click_rate, open_rate * 0.8)
  \<close>
  The rates before rounding, as a function of the persona and the two base draws.
\<close>

definition engagement_rates :: "string \<Rightarrow> rat \<Rightarrow> rat \<Rightarrow> rat \<times> rat" where
  "engagement_rates persona base_open base_click =
     (let (open_rate, click_rate) =
            (if persona = ''founders''
               then (fl (base_open * fl (11 / 10)), fl (base_click * fl (9 / 10)))
             else if persona = ''creatives''
               then (fl (base_open * fl (12 / 10)), fl (base_click * fl (13 / 10)))
             else (base_open, fl (base_click * fl (11 / 10))));
          open_rate = min open_rate (fl (95 / 100));
          click_rate = min click_rate (fl (open_rate * fl (8 / 10)))
      in (open_rate, click_rate))"

text \<open>
  \<^verbatim>\<open>
  sent = random.randint(80, 100)
  delivered = random.randint(int(sent * 0.85), sent)
  base_open = random.uniform(0.18, 0.35)
  base_click = random.uniform(0.05, 0.15)
  ...
  performance[persona] = {
      'sent': sent, 'delivered': delivered,
      'opened': round(open_rate, 4), 'clicked': round(click_rate, 4),
      'unsubscribed': round(random.uniform(0.001, 0.01), 4),
      'bounced': round(random.uniform(0.01, 0.05), 4) }
  \<close>
\<close>

definition simulate_persona :: "string \<Rightarrow> rng \<Rightarrow> pydict \<times> rng" where
  "simulate_persona persona g =
     (let (sent, g1) = randint 80 100 g;
          (delivered, g2) = randint (py_int (fl (of_int sent * fl (85 / 100)))) sent g1;
          (base_open, g3) = uniform (18 / 100) (35 / 100) g2;
          (base_click, g4) = uniform (5 / 100) (15 / 100) g3;
          (open_rate, click_rate) = engagement_rates persona base_open base_click;
          (unsubscribed, g5) = uniform (1 / 1000) (1 / 100) g4;
          (bounced, g6) = uniform (1 / 100) (5 / 100) g5
      in ([(''sent'', PInt sent),
           (''delivered'', PInt delivered),
           (''opened'', PFloat (py_round4 open_rate)),
           (''clicked'', PFloat (py_round4 click_rate)),
           (''unsubscribed'', PFloat (py_round4 unsubscribed)),
           (''bounced'', PFloat (py_round4 bounced))], g6))"

fun simulate_loop :: "string list \<Rightarrow> pydict \<Rightarrow> rng \<Rightarrow> pydict \<times> rng" where
  "simulate_loop [] performance g = (performance, g)"
| "simulate_loop (persona # personas) performance g =
     (let (metrics, g') = simulate_persona persona g in
      simulate_loop personas (AList.update persona (PDict metrics) performance) g')"

definition simulate_performance_data :: "string \<Rightarrow> string list \<Rightarrow> rng \<Rightarrow> pydict \<times> rng" where
  "simulate_performance_data campaign_id personas g = simulate_loop personas [] g"

section \<open>Mock contacts (src/crm\_integration.py)\<close>

text \<open>
  \<open>str.lower\<close>, \<open>str.capitalize\<close> and \<open>str.replace(' ', '')\<close> on the characters of
  the model. The three Latin-1 letters whose upper case lies beyond code point 255 are
  left as they are; the names the program capitalizes are ASCII.
\<close>

definition lower_char :: "char \<Rightarrow> char" where
  "lower_char c =
     (let n = (of_char c :: nat) in
      if (65 \<le> n \<and> n \<le> 90) \<or> (192 \<le> n \<and> n \<le> 222 \<and> n \<noteq> 215)
      then char_of (n + 32) else c)"

definition upper_char :: "char \<Rightarrow> char" where
  "upper_char c =
     (let n = (of_char c :: nat) in
      if (97 \<le> n \<and> n \<le> 122) \<or> (224 \<le> n \<and> n \<le> 254 \<and> n \<noteq> 247)
      then char_of (n - 32) else c)"

definition lower :: "string \<Rightarrow> string" where
  "lower s = map lower_char s"

definition capitalize :: "string \<Rightarrow> string" where
  "capitalize s = (case s of [] \<Rightarrow> [] | c # cs \<Rightarrow> upper_char c # map lower_char cs)"

definition companies :: "string list" where
  "companies =
     [''PixelForge Studio'', ''CreativeFlow Agency'', ''DesignLab Co'',
      ''InnovateTech'', ''BrightIdeas Inc'', ''StudioX Creative'',
      ''Workflow Masters'', ''AgileDesign'', ''TechCanvas'',
      ''CreativeMind Agency'', ''DigitalCraft'', ''VisionWorks'']"

definition first_names :: "string list" where
  "first_names =
     [''Alex'', ''Jordan'', ''Taylor'', ''Morgan'', ''Casey'',
      ''Riley'', ''Jamie'', ''Sam'', ''Drew'', ''Quinn'']"

text \<open>\<open>random.choice(seq)\<close> of a non-empty sequence.\<close>

definition choice :: "'a list \<Rightarrow> rng \<Rightarrow> 'a \<times> rng" where
  "choice seq g = (let (r, g') = next_raw g in (seq ! (r mod length seq), g'))"

text \<open>
  \<^verbatim>\<open>
  for persona_key in self.config.PERSONAS.keys():
      for i in range(count_per_persona):
          company = random.choice(companies)
          firstname = random.choice(first_names)
          contact = {
              'email': <firstname.lower()>.<persona_key><i> at <company.lower().replace(' ', '')>.com,
              'firstname': firstname,
              'lastname': persona_key.capitalize(),
              'company': company,
              'persona': persona_key,
              'jobtitle': self.config.PERSONAS[persona_key]['name'].split('/')[0].strip()
          }
          contacts.append(contact)
  \<close>
\<close>

definition jobtitle_of :: "pydict \<Rightarrow> pyval" where
  "jobtitle_of info =
     (case map_of info ''name'' of
        Some (PStr name) \<Rightarrow> PStr (strip (takeWhile (\<lambda>c. c \<noteq> CHR ''/'') name))
      | _ \<Rightarrow> PNone)"

definition mock_contact :: "string \<Rightarrow> pydict \<Rightarrow> nat \<Rightarrow> rng \<Rightarrow> pydict \<times> rng" where
  "mock_contact persona_key info i g =
     (let (company, g1) = choice companies g;
          (firstname, g2) = choice first_names g1
      in ([(''email'', PStr (lower firstname @ ''.'' @ persona_key @ string_of_nat i @ ''@''
                              @ filter (\<lambda>c. c \<noteq> CHR '' '') (lower company) @ ''.com'')),
           (''firstname'', PStr firstname),
           (''lastname'', PStr (capitalize persona_key)),
           (''company'', PStr company),
           (''persona'', PStr persona_key),
           (''jobtitle'', jobtitle_of info)], g2))"

fun mock_contacts_range ::
  "string \<Rightarrow> pydict \<Rightarrow> nat list \<Rightarrow> pydict list \<Rightarrow> rng \<Rightarrow> pydict list \<times> rng" where
  "mock_contacts_range persona_key info [] contacts g = (contacts, g)"
| "mock_contacts_range persona_key info (i # is) contacts g =
     (let (contact, g') = mock_contact persona_key info i g in
      mock_contacts_range persona_key info is (contacts @ [contact]) g')"

fun mock_contacts_personas ::
  "(string \<times> pydict) list \<Rightarrow> nat \<Rightarrow> pydict list \<Rightarrow> rng \<Rightarrow> pydict list \<times> rng" where
  "mock_contacts_personas [] n contacts g = (contacts, g)"
| "mock_contacts_personas ((persona_key, info) # rest) n contacts g =
     (let (contacts', g') = mock_contacts_range persona_key info [0..<n] contacts g in
      mock_contacts_personas rest n contacts' g')"

definition create_mock_contacts :: "nat \<Rightarrow> rng \<Rightarrow> pydict list \<times> rng" where
  "create_mock_contacts count_per_persona g =
     mock_contacts_personas PERSONAS count_per_persona [] g"

section \<open>The pipeline orchestrator (main.py, dashboard/app.py)\<close>

text \<open>
  The calls that go through the language model are parameters of the orchestrator: each
  is a function of its arguments that yields a value or raises. \<open>generate_blog_post\<close>
  catches every failure of its own and always returns a dictionary. The credential the
  CRM client is built from and the identifier minted from the clock are parameters too.
\<close>

record services =
  hubspot_api_key :: "string option"
  generate_campaign_id :: string
  generate_blog_post :: "string \<Rightarrow> pydict"
  generate_variations :: "pyval \<Rightarrow> py_error + pyval"
  generate_persona_newsletters :: "pydict \<Rightarrow> py_error + pyval"
  generate_performance_summary :: "pydict \<Rightarrow> pyval \<Rightarrow> py_error + pyval"
  suggest_improvements :: "pyval \<Rightarrow> pydict \<Rightarrow> py_error + pyval"

text \<open>
  \<open>save_json(data, filepath)\<close> writes one JSON document. The files written by a run
  are kept as the list of the calls made, oldest first; the data directories exist after
  \<open>setup_directories\<close> and every value written is JSON-shaped, so the call itself is
  taken to succeed.
\<close>

type_synonym writes = "(string \<times> pyval) list"

definition save_json :: "pyval \<Rightarrow> string \<Rightarrow> writes \<Rightarrow> writes" where
  "save_json data filepath w = w @ [(filepath, data)]"

text \<open>
  \<^verbatim>\<open>
  content_filename = f"{config.CONTENT_DIR}/{sanitize_filename(blog_data['title'])}_{campaign_id}.json"
  \<close>
  The path of the content artifact, from the sanitized title.
\<close>

definition content_filename :: "string \<Rightarrow> string \<Rightarrow> string" where
  "content_filename name campaign_id =
     CONTENT_DIR @ ''/'' @ name @ ''_'' @ campaign_id @ ''.json''"

definition campaign_filename :: "string \<Rightarrow> string" where
  "campaign_filename campaign_id = CAMPAIGNS_DIR @ ''/'' @ campaign_id @ ''_log.json''"

definition performance_filename :: "string \<Rightarrow> string" where
  "performance_filename campaign_id = ANALYTICS_DIR @ ''/'' @ campaign_id @ ''_performance.json''"

definition summary_filename :: "string \<Rightarrow> string" where
  "summary_filename campaign_id = ANALYTICS_DIR @ ''/'' @ campaign_id @ ''_summary.json''"

definition improvement_filename :: "string \<Rightarrow> string" where
  "improvement_filename campaign_id = ANALYTICS_DIR @ ''/'' @ campaign_id @ ''_improvements.json''"

text \<open>
  \<^verbatim>\<open>
  save_json({
      'campaign_id': campaign_id, 'topic': topic, 'blog': blog_data,
      'newsletters': newsletters, 'variations': variations,
      'created_at': datetime.now().isoformat()
  }, content_filename)
  \<close>
\<close>

definition content_artifact ::
  "env \<Rightarrow> string \<Rightarrow> string \<Rightarrow> pydict \<Rightarrow> pyval \<Rightarrow> pyval \<Rightarrow> pyval" where
  "content_artifact e campaign_id topic blog_data newsletters variations =
     PDict [(''campaign_id'', PStr campaign_id),
            (''topic'', PStr topic),
            (''blog'', PDict blog_data),
            (''newsletters'', newsletters),
            (''variations'', variations),
            (''created_at'', PStr (now e))]"

text \<open>\<open>len(v)\<close>, and iterating over \<open>v\<close>: a type error for a value that is neither.\<close>

definition py_len :: "pyval \<Rightarrow> py_error + nat" where
  "py_len v =
     (case v of
        PList xs \<Rightarrow> Inr (length xs)
      | PStr s \<Rightarrow> Inr (length s)
      | PDict d \<Rightarrow> Inr (length d)
      | _ \<Rightarrow> Inl TypeError)"

text \<open>
  The blog draft as the orchestrator reads it: \<open>blog_data['title']\<close>, which is printed
  whatever its type, and \<open>blog_data['content'].split()\<close> for the word count, which
  only a string has.
\<close>

definition read_blog :: "pydict \<Rightarrow> py_error + pyval \<times> string" where
  "read_blog blog_data =
     (case dict_item blog_data ''title'' of
        Inl err \<Rightarrow> Inl err
      | Inr title \<Rightarrow>
     (case dict_item blog_data ''content'' of
        Inl err \<Rightarrow> Inl err
      | Inr content \<Rightarrow>
     (case content of
        PStr c \<Rightarrow> Inr (title, c)
      | _ \<Rightarrow> Inl AttributeError)))"

text \<open>
  \<^verbatim>\<open>
  variations = []
  if generate_variations:
      variations = generator.generate_variations(blog_data['content'], num_variations=2)
      print(f"   ... Generated {len(variations)} variations\n")
  \<close>
\<close>

definition variations_step :: "services \<Rightarrow> string \<Rightarrow> bool \<Rightarrow> py_error + pyval" where
  "variations_step sv content requested =
     (if requested then
        (case generate_variations sv (PStr content) of
           Inl err \<Rightarrow> Inl err
         | Inr variations \<Rightarrow>
             (case py_len variations of Inl err \<Rightarrow> Inl err | Inr n \<Rightarrow> Inr variations))
      else Inr (PList []))"

text \<open>
  \<^verbatim>\<open>
  newsletters = generator.generate_persona_newsletters(blog_data)
  for persona, newsletter in newsletters.items():
      print(f"   ... {persona}: {newsletter['subject_line']}")
  \<close>
\<close>

fun subject_lines :: "(string \<times> pyval) list \<Rightarrow> py_error + pyval list" where
  "subject_lines [] = Inr []"
| "subject_lines ((persona, newsletter) # rest) =
     (case subscript newsletter ''subject_line'' of
        Inl err \<Rightarrow> Inl err
      | Inr s \<Rightarrow> (case subject_lines rest of Inl err \<Rightarrow> Inl err | Inr ss \<Rightarrow> Inr (s # ss)))"

definition newsletters_step :: "services \<Rightarrow> pydict \<Rightarrow> py_error + pyval" where
  "newsletters_step sv blog_data =
     (case generate_persona_newsletters sv blog_data of
        Inl err \<Rightarrow> Inl err
      | Inr newsletters \<Rightarrow>
     (case dict_items newsletters of
        Inl err \<Rightarrow> Inl err
      | Inr items \<Rightarrow>
     (case subject_lines items of Inl err \<Rightarrow> Inl err | Inr ss \<Rightarrow> Inr newsletters)))"

text \<open>
  Steps 3 and 4 of the run: contacts, segmentation, the send and the campaign log.
  \<^verbatim>\<open>
  contacts = crm.create_mock_contacts(count_per_persona=10) if use_mock_contacts else []
  segmented_contacts = crm.segment_contacts(contacts)
  campaign_data = {'campaign_id': campaign_id, 'blog_title': blog_data['title'],
                   'newsletters': newsletters}
  distribution_results = crm.send_campaign(campaign_data)
  ...
  campaign_log = crm.log_campaign(campaign_data)
  campaign_log['distribution_results'] = distribution_results
  \<close>
  Between the send and the log the command-line run prints a summary; in its simulated
  branch it sums \<open>r.get('recipients', 0)\<close> over the results.
\<close>

fun total_recipients :: "(string \<times> pyval) list \<Rightarrow> py_error + int" where
  "total_recipients [] = Inr 0"
| "total_recipients ((persona, r) # rest) =
     (case r of
        PDict d \<Rightarrow>
          (case dict_get d ''recipients'' (PInt 0) of
             PInt n \<Rightarrow> (case total_recipients rest of Inl err \<Rightarrow> Inl err | Inr t \<Rightarrow> Inr (n + t))
           | PBool b \<Rightarrow>
               (case total_recipients rest of
                  Inl err \<Rightarrow> Inl err
                | Inr t \<Rightarrow> Inr ((if b then 1 else 0) + t))
           | _ \<Rightarrow> Inl TypeError)
      | _ \<Rightarrow> Inl AttributeError)"

definition distribution_summary :: "crm \<Rightarrow> env \<Rightarrow> pydict \<Rightarrow> py_error + unit" where
  "distribution_summary self e distribution_results =
     (if mock_mode self \<or> \<not> check_marketing_access self e then
        (case total_recipients distribution_results of
           Inl err \<Rightarrow> Inl err
         | Inr t \<Rightarrow> Inr ())
      else Inr ())"

definition distribute ::
  "bool \<Rightarrow> crm \<Rightarrow> env \<Rightarrow> string \<Rightarrow> pyval \<Rightarrow> pyval \<Rightarrow> pydict list \<Rightarrow> rng
     \<Rightarrow> (py_error + pydict) \<times> crm \<times> rng" where
  "distribute console self e campaign_id title newsletters contacts g =
     (case segment_contacts contacts of
        Inl err \<Rightarrow> (Inl err, self, g)
      | Inr segmented_contacts \<Rightarrow>
          (let campaign_data = [(''campaign_id'', PStr campaign_id),
                                (''blog_title'', title),
                                (''newsletters'', newsletters)];
               (sent, self', g') = send_campaign self e campaign_data g
           in case sent of
                Inl err \<Rightarrow> (Inl err, self', g')
              | Inr distribution_results \<Rightarrow>
                  (case (if console then distribution_summary self' e distribution_results
                         else Inr ()) of
                     Inl err \<Rightarrow> (Inl err, self', g')
                   | Inr u \<Rightarrow>
                       (case log_campaign self' e campaign_data of
                          Inl err \<Rightarrow> (Inl err, self', g')
                        | Inr campaign_log \<Rightarrow>
                            (Inr (AList.update ''distribution_results''
                                    (PDict distribution_results) campaign_log), self', g')))))"

text \<open>
  \<^verbatim>\<open>
  data_to_store = {'campaign_id': campaign_id, 'timestamp': format_timestamp(),
                   'performance': performance_data}
  \<close>
\<close>

definition performance_artifact :: "env \<Rightarrow> string \<Rightarrow> pydict \<Rightarrow> pyval" where
  "performance_artifact e campaign_id performance_data =
     PDict [(''campaign_id'', PStr campaign_id),
            (''timestamp'', PStr (format_timestamp e)),
            (''performance'', PDict performance_data)]"

text \<open>
  The command-line run prints the four parts of the summary before it saves it:
  \<open>summary['highlights']\<close>, \<open>summary['persona_comparison']\<close> and the items of
  \<open>summary['recommendations']\<close> and \<open>summary['next_topics']\<close>.
\<close>

definition print_summary :: "pyval \<Rightarrow> py_error + unit" where
  "print_summary summary =
     (case subscript summary ''highlights'' of
        Inl err \<Rightarrow> Inl err
      | Inr h \<Rightarrow>
     (case subscript summary ''persona_comparison'' of
        Inl err \<Rightarrow> Inl err
      | Inr c \<Rightarrow>
     (case subscript summary ''recommendations'' of
        Inl err \<Rightarrow> Inl err
      | Inr recs \<Rightarrow>
     (case py_len recs of
        Inl err \<Rightarrow> Inl err
      | Inr n \<Rightarrow>
     (case subscript summary ''next_topics'' of
        Inl err \<Rightarrow> Inl err
      | Inr topics \<Rightarrow>
     (case py_len topics of Inl err \<Rightarrow> Inl err | Inr m \<Rightarrow> Inr ()))))))"

text \<open>
  After saving the improvements the command-line run prints
  \<open>len(improvements['headline_suggestions'])\<close> and
  \<open>len(improvements['engagement_tactics'])\<close>.
\<close>

definition print_improvements :: "pyval \<Rightarrow> py_error + unit" where
  "print_improvements improvements =
     (case subscript improvements ''headline_suggestions'' of
        Inl err \<Rightarrow> Inl err
      | Inr hs \<Rightarrow>
     (case py_len hs of
        Inl err \<Rightarrow> Inl err
      | Inr n \<Rightarrow>
     (case subscript improvements ''engagement_tactics'' of
        Inl err \<Rightarrow> Inl err
      | Inr ts \<Rightarrow>
     (case py_len ts of Inl err \<Rightarrow> Inl err | Inr m \<Rightarrow> Inr ()))))"

text \<open>
  The command-line run (\<open>run_pipeline\<close> of main.py). It yields the files written, in
  order, and either the exception that ended the run or the dictionary it returns. A
  file is written when its stage has completed; an exception leaves the files written
  before it.
\<close>

definition run_pipeline ::
  "services \<Rightarrow> env \<Rightarrow> rng \<Rightarrow> string \<Rightarrow> bool \<Rightarrow> bool \<Rightarrow> writes \<times> (py_error + pydict)" where
  "run_pipeline sv e g topic use_mock_contacts variations_requested =
     (let crm = crm_init (hubspot_api_key sv);
          campaign_id = generate_campaign_id sv;
          blog_data = generate_blog_post sv topic
      in
      case read_blog blog_data of
        Inl err \<Rightarrow> ([], Inl err)
      | Inr (title, content) \<Rightarrow>
      (case variations_step sv content variations_requested of
        Inl err \<Rightarrow> ([], Inl err)
      | Inr variations \<Rightarrow>
      (case newsletters_step sv blog_data of
        Inl err \<Rightarrow> ([], Inl err)
      | Inr newsletters \<Rightarrow>
      (case sanitize_filename_value title of
        Inl err \<Rightarrow> ([], Inl err)
      | Inr name \<Rightarrow>
      (let w1 = save_json (content_artifact e campaign_id topic blog_data newsletters variations)
                  (content_filename name campaign_id) [];
           (contacts, g1) = (if use_mock_contacts then create_mock_contacts 10 g else ([], g));
           (logged, crm', g2) = distribute True crm e campaign_id title newsletters contacts g1
       in
       case logged of
         Inl err \<Rightarrow> (w1, Inl err)
       | Inr campaign_log \<Rightarrow>
       (let w2 = save_json (PDict campaign_log) (campaign_filename campaign_id) w1;
            (performance_data, g3) = simulate_performance_data campaign_id persona_keys g2;
            w3 = save_json (performance_artifact e campaign_id performance_data)
                   (performance_filename campaign_id) w2
        in
        case generate_performance_summary sv performance_data title of
          Inl err \<Rightarrow> (w3, Inl err)
        | Inr summary \<Rightarrow>
        (case print_summary summary of
          Inl err \<Rightarrow> (w3, Inl err)
        | Inr u \<Rightarrow>
        (let w4 = save_json summary (summary_filename campaign_id) w3;
             result = [(''campaign_id'', PStr campaign_id),
                       (''blog_data'', PDict blog_data),
                       (''newsletters'', newsletters),
                       (''performance'', PDict performance_data),
                       (''summary'', summary),
                       (''mock_mode'', PBool (mock_mode crm'))]
         in
         if variations_requested then
           (case suggest_improvements sv (PStr content) performance_data of
              Inl err \<Rightarrow> (w4, Inl err)
            | Inr improvements \<Rightarrow>
                (let w5 = save_json improvements (improvement_filename campaign_id) w4 in
                 case print_improvements improvements of
                   Inl err \<Rightarrow> (w5, Inl err)
                 | Inr u' \<Rightarrow> (w5, Inr result)))
         else (w4, Inr result)))))))))"

text \<open>
  The dashboard run (\<open>run_pipeline_async\<close> of dashboard/app.py): the campaign id is
  given, the newsletters come before the variations, the contacts are always mock
  contacts, nothing is printed, and an exception is caught and recorded as the failed
  status of the run (here: the left injection).
\<close>

definition dashboard_variations :: "services \<Rightarrow> pydict \<Rightarrow> bool \<Rightarrow> py_error + pyval" where
  "dashboard_variations sv blog_data requested =
     (if requested then
        (case dict_item blog_data ''content'' of
           Inl err \<Rightarrow> Inl err
         | Inr content \<Rightarrow>
        (case generate_variations sv content of
           Inl err \<Rightarrow> Inl err
         | Inr variations \<Rightarrow>
             (case py_len variations of Inl err \<Rightarrow> Inl err | Inr n \<Rightarrow> Inr variations)))
      else Inr (PList []))"

definition dashboard_newsletters :: "services \<Rightarrow> pydict \<Rightarrow> py_error + pyval" where
  "dashboard_newsletters sv blog_data =
     (case generate_persona_newsletters sv blog_data of
        Inl err \<Rightarrow> Inl err
      | Inr newsletters \<Rightarrow>
          (case py_len newsletters of Inl err \<Rightarrow> Inl err | Inr n \<Rightarrow> Inr newsletters))"

text \<open>\<open>blog_data['title']\<close>, logged whatever its type.\<close>

definition dashboard_title :: "pydict \<Rightarrow> py_error + pyval" where
  "dashboard_title blog_data = dict_item blog_data ''title''"

definition dashboard_improvements :: "services \<Rightarrow> pydict \<Rightarrow> pydict \<Rightarrow> py_error + pyval" where
  "dashboard_improvements sv blog_data performance_data =
     (case dict_item blog_data ''content'' of
        Inl err \<Rightarrow> Inl err
      | Inr content \<Rightarrow> suggest_improvements sv content performance_data)"

definition run_pipeline_async ::
  "services \<Rightarrow> env \<Rightarrow> rng \<Rightarrow> string \<Rightarrow> string \<Rightarrow> bool \<Rightarrow> writes \<times> (py_error + unit)" where
  "run_pipeline_async sv e g campaign_id topic variations_requested =
     (let crm = crm_init (hubspot_api_key sv);
          blog_data = generate_blog_post sv topic
      in
      case dashboard_title blog_data of
        Inl err \<Rightarrow> ([], Inl err)
      | Inr title \<Rightarrow>
      (case dashboard_newsletters sv blog_data of
        Inl err \<Rightarrow> ([], Inl err)
      | Inr newsletters \<Rightarrow>
      (case dashboard_variations sv blog_data variations_requested of
        Inl err \<Rightarrow> ([], Inl err)
      | Inr variations \<Rightarrow>
      (case sanitize_filename_value title of
        Inl err \<Rightarrow> ([], Inl err)
      | Inr name \<Rightarrow>
      (let w1 = save_json (content_artifact e campaign_id topic blog_data newsletters variations)
                  (content_filename name campaign_id) [];
           (contacts, g1) = create_mock_contacts 10 g;
           (logged, crm', g2) = distribute False crm e campaign_id title newsletters contacts g1
       in
       case logged of
         Inl err \<Rightarrow> (w1, Inl err)
       | Inr campaign_log \<Rightarrow>
       (let w2 = save_json (PDict campaign_log) (campaign_filename campaign_id) w1;
            (performance_data, g3) = simulate_performance_data campaign_id persona_keys g2;
            w3 = save_json (performance_artifact e campaign_id performance_data)
                   (performance_filename campaign_id) w2
        in
        case generate_performance_summary sv performance_data title of
          Inl err \<Rightarrow> (w3, Inl err)
        | Inr summary \<Rightarrow>
        (let w4 = save_json summary (summary_filename campaign_id) w3 in
         if variations_requested then
           (case dashboard_improvements sv blog_data performance_data of
              Inl err \<Rightarrow> (w4, Inl err)
            | Inr improvements \<Rightarrow>
                (save_json improvements (improvement_filename campaign_id) w4, Inr ()))
         else (w4, Inr ()))))))))"

section \<open>Saving and loading JSON artifacts (src/utils.py)\<close>

text \<open>
  \<^verbatim>\<open>
  def save_json(data, filepath):
      os.makedirs(os.path.dirname(filepath), exist_ok=True)
      with open(filepath, 'w', encoding='utf-8') as f:
          json.dump(data, f, indent=2, ensure_ascii=False)

  def load_json(filepath):
      with open(filepath, 'r', encoding='utf-8') as f:
          return json.load(f)
  \<close>
  Here the two functions act on the file system. \<open>os.path.dirname\<close> (POSIX) cuts the
  path after its last slash and strips the trailing slashes of that head unless it consists
  of slashes only. \<open>os.makedirs(name, exist_ok=True)\<close> creates \<open>name\<close> and its missing
  ancestors; it raises for the empty name, when \<open>name\<close> is a file, and when an ancestor is
  a file. Opening a path for writing raises for the empty path, for a directory, and when an
  ancestor is missing or is a file; otherwise the file holds the text written. The JSON
  encoder and decoder are parameters, as in \<open>json_load_file\<close>; every value of \<open>pyval\<close> is
  JSON-serialisable, so the encoder is total.
\<close>

definition os_path_dirname :: "string \<Rightarrow> string" where
  "os_path_dirname p =
     (let head = rev (dropWhile (\<lambda>c. c \<noteq> CHR ''/'') (rev p))
      in if head \<noteq> [] \<and> head \<noteq> replicate (length head) CHR ''/''
         then rev (dropWhile (\<lambda>c. c = CHR ''/'') (rev head))
         else head)"

definition ancestors :: "string \<Rightarrow> string list" where
  "ancestors name =
     [take i name. i \<leftarrow> [1..<length name],
                   name ! i = CHR ''/'' \<and> name ! (i - 1) \<noteq> CHR ''/'']"

definition is_file :: "filesystem \<Rightarrow> string \<Rightarrow> bool" where
  "is_file fs p = (case fs p of Some (File content) \<Rightarrow> True | _ \<Rightarrow> False)"

definition os_makedirs :: "filesystem \<Rightarrow> string \<Rightarrow> py_error + filesystem" where
  "os_makedirs fs name =
     (if name = [] then Inl FileNotFoundError
      else if list_ex (is_file fs) (ancestors name) then Inl NotADirectoryError
      else if is_file fs name then Inl FileExistsError
      else Inr (\<lambda>p. if p \<in> set (name # ancestors name) \<and> fs p = None
                     then Some Directory else fs p))"

definition open_write :: "filesystem \<Rightarrow> string \<Rightarrow> string \<Rightarrow> py_error + filesystem" where
  "open_write fs path content =
     (if path = [] then Inl FileNotFoundError
      else if fs path = Some Directory \<or> endswith path ''/'' then Inl IsADirectoryError
      else if list_ex (is_file fs) (ancestors path) then Inl NotADirectoryError
      else if list_ex (\<lambda>d. fs d = None) (ancestors path) then Inl FileNotFoundError
      else Inr (fs(path := Some (File content))))"

definition save_json_file ::
  "(pyval \<Rightarrow> string) \<Rightarrow> filesystem \<Rightarrow> pyval \<Rightarrow> string \<Rightarrow> py_error + filesystem" where
  "save_json_file dumps fs data filepath =
     (case os_makedirs fs (os_path_dirname filepath) of
        Inl err \<Rightarrow> Inl err
      | Inr fs1 \<Rightarrow> open_write fs1 filepath (dumps data))"

definition load_json ::
  "(string \<Rightarrow> pyval option) \<Rightarrow> filesystem \<Rightarrow> string \<Rightarrow> py_error + pyval" where
  "load_json loads fs filepath = json_load_file loads fs filepath"

section \<open>Sample inputs\<close>

text \<open>Concrete inputs at which the theorems below are instantiated.\<close>

definition contacts_demo :: "pydict list" where
  "contacts_demo =
     [[(''email'', PStr ''alex.founders0@pixelforgestudio.com''), (''persona'', PStr ''founders'')],
      [(''email'', PStr ''sam.operations1@techcanvas.com''), (''persona'', PStr ''operations'')],
      [(''email'', PStr ''drew@agiledesign.com'')]]"

definition contact_untagged :: pydict where
  "contact_untagged = [(''email'', PStr ''drew@agiledesign.com''), (''company'', PStr ''AgileDesign'')]"

definition contact_unknown :: pydict where
  "contact_unknown = [(''email'', PStr ''pat@example.com''), (''persona'', PStr ''marketing'')]"

definition contact_creative :: pydict where
  "contact_creative = [(''email'', PStr ''riley.creatives3@designlabco.com''), (''persona'', PStr ''creatives'')]"

definition env_demo :: env where
  "env_demo =
     \<lparr>http = (\<lambda>m url payload. Failed),
      now = ''2025-01-15T09:30:00.000000'',
      str_hash = (\<lambda>s. int (length s)),
      fmt = (\<lambda>v. ''?'')\<rparr>"

definition newsletters_demo :: pydict where
  "newsletters_demo =
     [(''founders'', PDict [(''subject_line'', PStr ''Scale faster''),
                            (''preview_text'', PStr ''ROI first''),
                            (''content'', PStr ''Hello founders'')]),
      (''creatives'', PDict [(''subject_line'', PStr ''Make more''),
                             (''preview_text'', PStr ''Ideas''),
                             (''content'', PStr ''Hello creatives'')])]"

definition campaign_data_demo :: pydict where
  "campaign_data_demo =
     [(''campaign_id'', PStr ''campaign_20250115_093000''),
      (''blog_title'', PStr ''Automating Client Onboarding''),
      (''newsletters'', PDict newsletters_demo)]"

definition crm_live :: crm where
  "crm_live = crm_init (Some ''pat-na1-0123456789abcdef'')"

definition env_live :: env where
  "env_live =
     \<lparr>http = (\<lambda>m url payload.
         if m = GET then Reply 200 (Some (PDict [(''results'', PList [])]))
         else if url = ''https://api.hubapi.com/marketing/v3/emails'' then Reply 403 None
         else Reply 201 (Some (PDict [(''id'', PStr ''51'')]))),
      now = ''2025-01-15T09:30:00.000000'',
      str_hash = (\<lambda>s. int (length s)),
      fmt = (\<lambda>v. ''?'')\<rparr>"

definition founders_payload_demo :: pyval where
  "founders_payload_demo =
     PDict [(''name'', PStr ''Automating Client Onboarding - founders''),
            (''subject'', PStr ''Scale faster''),
            (''emailBody'', PStr ''Hello founders''),
            (''previewText'', PStr ''ROI first''),
            (''campaignName'', PStr ''campaign_20250115_093000'')]"

definition creatives_payload_demo :: pyval where
  "creatives_payload_demo =
     PDict [(''name'', PStr ''Automating Client Onboarding - creatives''),
            (''subject'', PStr ''Make more''),
            (''emailBody'', PStr ''Hello creatives''),
            (''previewText'', PStr ''Ideas''),
            (''campaignName'', PStr ''campaign_20250115_093000'')]"

text \<open>A network that accepts the send to the founders and answers every other send with 401.\<close>

definition env_partial :: env where
  "env_partial =
     \<lparr>http = (\<lambda>m url payload.
         if m = GET then Reply 200 (Some (PDict [(''results'', PList [])]))
         else if payload = founders_payload_demo then Reply 200 (Some (PDict [(''id'', PStr ''9001'')]))
         else Reply 401 None),
      now = ''2025-01-15T09:30:00.000000'',
      str_hash = (\<lambda>s. int (length s)),
      fmt = (\<lambda>v. ''?'')\<rparr>"

definition rng_demo :: rng where
  "rng_demo = \<lparr>draws = (\<lambda>i. 7 * i + 3), pos = 0\<rparr>"

text \<open>A data directory that holds the log of one campaign and nothing else.\<close>

definition fs_demo :: filesystem where
  "fs_demo =
     (\<lambda>path. if path = ''data'' \<or> path = ''data/campaigns'' \<or> path = ''data/analytics''
              then Some Directory
            else if path = ''data/campaigns/campaign_20250115_093000_log.json''
              then Some (File ''{}'')
            else None)"

definition loads_demo :: "string \<Rightarrow> pyval option" where
  "loads_demo content = (if content = ''{}'' then Some (PDict []) else None)"

text \<open>Services that answer every call with a well-formed value.\<close>

definition blog_demo :: pydict where
  "blog_demo =
     [(''title'', PStr ''Automating Client Onboarding''),
      (''outline'', PList [PStr ''Why'', PStr ''How'', PStr ''Next'']),
      (''content'', PStr ''Onboarding takes time. Automate it.'')]"

definition summary_demo :: pyval where
  "summary_demo =
     PDict [(''highlights'', PStr ''Solid reach''),
            (''persona_comparison'', PStr ''Creatives clicked most''),
            (''recommendations'', PList [PStr ''Test subject lines'']),
            (''next_topics'', PList [PStr ''Integration deep-dives''])]"

definition services_demo :: services where
  "services_demo =
     \<lparr>hubspot_api_key = None,
      generate_campaign_id = ''campaign_20250115_093000'',
      generate_blog_post = (\<lambda>topic. blog_demo),
      generate_variations = (\<lambda>content. Inr (PList [content, content])),
      generate_persona_newsletters = (\<lambda>blog_data. Inr (PDict newsletters_demo)),
      generate_performance_summary = (\<lambda>performance_data title. Inr summary_demo),
      suggest_improvements = (\<lambda>content performance_data.
         Inr (PDict [(''headline_suggestions'', PList [PStr ''Add numbers'']),
                     (''hook_improvements'', PStr ''Open with a question''),
                     (''cta_optimization'', PStr ''Use a verb''),
                     (''engagement_tactics'', PList [PStr ''Add case studies''])]))\<rparr>"

text \<open>Services whose blog draft carries a list of strings as its title.\<close>

definition blog_list_title :: pydict where
  "blog_list_title =
     [(''title'', PList [PStr ''a'', PStr ''b'']),
      (''outline'', PList [PStr ''Why'', PStr ''How'']),
      (''content'', PStr ''Onboarding takes time. Automate it.'')]"

definition services_list_title :: services where
  "services_list_title = services_demo\<lparr>generate_blog_post := (\<lambda>topic. blog_list_title)\<rparr>"

section \<open>Verified properties\<close>

subsection \<open>Segmentation\<close>

lemma persona_keys_eq: "persona_keys = [''founders'', ''creatives'', ''operations'']"
  by (simp add: persona_keys_def PERSONAS_def)

lemma segment_loop_eq:
  "\<forall>c\<in>set contacts. hashable (persona_tag c) \<Longrightarrow>
   segment_loop segs contacts =
     Inr (map (\<lambda>(k, g). (k, g @ filter (\<lambda>c. persona_tag c = PStr k) contacts)) segs)"
proof (induction contacts arbitrary: segs)
  case Nil
  then show ?case by simp
next
  case (Cons c cs)
  then have h: "hashable (persona_tag c)" and hs: "\<forall>c\<in>set cs. hashable (persona_tag c)"
    by simp_all
  note IH = Cons.IH [OF hs]
  show ?case
  proof (cases "in_segments (persona_tag c) segs")
    case True
    then obtain p where p: "persona_tag c = PStr p" and pin: "p \<in> set (map fst segs)"
      by (auto simp: in_segments_def split: pyval.splits)
    have "segment_loop segs (c # cs) = segment_loop (segment_append p c segs) cs"
      using True h p by simp
    also have "\<dots> = Inr (map (\<lambda>(k, g). (k, g @ filter (\<lambda>c. persona_tag c = PStr k) cs))
                        (segment_append p c segs))"
      by (rule IH)
    also have "map (\<lambda>(k, g). (k, g @ filter (\<lambda>c. persona_tag c = PStr k) cs))
                 (segment_append p c segs)
             = map (\<lambda>(k, g). (k, g @ filter (\<lambda>c. persona_tag c = PStr k) (c # cs))) segs"
      using p by (auto simp: segment_append_def)
    finally show ?thesis .
  next
    case False
    have ne: "persona_tag c \<noteq> PStr k" if "k \<in> set (map fst segs)" for k
      using False that by (auto simp: in_segments_def split: pyval.splits)
    have "segment_loop segs (c # cs) = segment_loop segs cs"
      using False h by simp
    also have "\<dots> = Inr (map (\<lambda>(k, g). (k, g @ filter (\<lambda>c. persona_tag c = PStr k) cs)) segs)"
      by (rule IH)
    also have "map (\<lambda>(k, g). (k, g @ filter (\<lambda>c. persona_tag c = PStr k) cs)) segs
             = map (\<lambda>(k, g). (k, g @ filter (\<lambda>c. persona_tag c = PStr k) (c # cs))) segs"
      using ne by (auto simp: rev_image_eqI)
    finally show ?thesis .
  qed
qed

lemma segment_loop_hashable:
  "segment_loop segs contacts = Inr r \<Longrightarrow> \<forall>c\<in>set contacts. hashable (persona_tag c)"
proof (induction contacts arbitrary: segs)
  case Nil
  then show ?case by simp
next
  case (Cons c cs)
  from Cons.prems have h: "hashable (persona_tag c)"
    by (auto simp: Let_def split: if_splits)
  from Cons.prems h obtain segs' where "segment_loop segs' cs = Inr r"
    by (auto simp: Let_def split: if_splits pyval.splits)
  then have "\<forall>c\<in>set cs. hashable (persona_tag c)" by (rule Cons.IH)
  with h show ?case by simp
qed

lemma segment_contacts_eq:
  "\<forall>c\<in>set contacts. hashable (persona_tag c) \<Longrightarrow>
   segment_contacts contacts =
     Inr [(''founders'', filter (\<lambda>c. persona_tag c = PStr ''founders'') contacts),
          (''creatives'', filter (\<lambda>c. persona_tag c = PStr ''creatives'') contacts),
          (''operations'', filter (\<lambda>c. persona_tag c = PStr ''operations'') contacts)]"
  by (simp add: segment_contacts_def segment_loop_eq persona_keys_eq)

lemma segment_contacts_Inr:
  assumes "segment_contacts contacts = Inr segs"
  shows "segs =
     [(''founders'', filter (\<lambda>c. persona_tag c = PStr ''founders'') contacts),
      (''creatives'', filter (\<lambda>c. persona_tag c = PStr ''creatives'') contacts),
      (''operations'', filter (\<lambda>c. persona_tag c = PStr ''operations'') contacts)]"
proof -
  have "\<forall>c\<in>set contacts. hashable (persona_tag c)"
    using assms unfolding segment_contacts_def by (rule segment_loop_hashable)
  from segment_contacts_eq [OF this] assms show ?thesis by simp
qed

text \<open>
  Claim C9. For every contact list, the empty one included, the dictionary that
  \<open>segment_contacts\<close> returns has exactly the personas of the registry as its keys
  (founders, creatives, operations, in this order), and the group of a persona that no
  contact is tagged with is empty. The call returns whenever no contact carries an
  unhashable tag.
\<close>

theorem segment_contacts_keys:
  "(segment_contacts contacts = Inr segs \<longrightarrow>
      map fst segs = [''founders'', ''creatives'', ''operations'']
      \<and> map fst segs = persona_keys
      \<and> (\<forall>p\<in>set persona_keys.
            (\<forall>c\<in>set contacts. persona_tag c \<noteq> PStr p) \<longrightarrow> map_of segs p = Some []))
   \<and> ((\<forall>c\<in>set contacts. hashable (persona_tag c)) \<longrightarrow>
        (\<exists>segs'. segment_contacts contacts = Inr segs'))"
proof (intro conjI impI)
  assume a: "segment_contacts contacts = Inr segs"
  note s = segment_contacts_Inr [OF a]
  show "map fst segs = [''founders'', ''creatives'', ''operations'']" by (simp add: s)
  then show "map fst segs = persona_keys" by (simp add: persona_keys_eq)
  show "\<forall>p\<in>set persona_keys.
          (\<forall>c\<in>set contacts. persona_tag c \<noteq> PStr p) \<longrightarrow> map_of segs p = Some []"
    by (auto simp: s persona_keys_eq filter_empty_conv)
next
  assume "\<forall>c\<in>set contacts. hashable (persona_tag c)"
  from segment_contacts_eq [OF this] show "\<exists>segs'. segment_contacts contacts = Inr segs'"
    by blast
qed

theorem segment_contacts_keys_witness:
  "segment_contacts [] = Inr [(''founders'', []), (''creatives'', []), (''operations'', [])]
   \<and> (\<exists>segs. segment_contacts contacts_demo = Inr segs
          \<and> map fst segs = [''founders'', ''creatives'', ''operations'']
          \<and> map_of segs ''creatives'' = Some [])"
proof -
  have e: "segment_contacts [] = Inr [(''founders'', []), (''creatives'', []), (''operations'', [])]"
    by (simp add: segment_contacts_def persona_keys_eq)
  have h: "\<forall>c\<in>set contacts_demo. hashable (persona_tag c)"
    by (simp add: contacts_demo_def persona_tag_def dict_get_def)
  have n: "\<forall>c\<in>set contacts_demo. persona_tag c \<noteq> PStr ''creatives''"
    by (simp add: contacts_demo_def persona_tag_def dict_get_def)
  have k: "''creatives'' \<in> set persona_keys" by (simp add: persona_keys_eq)
  from segment_contacts_keys [of contacts_demo] h
  obtain segs where s: "segment_contacts contacts_demo = Inr segs" by blast
  from segment_contacts_keys [of contacts_demo segs] s n k
  have m: "map fst segs = [''founders'', ''creatives'', ''operations'']"
    and c: "map_of segs ''creatives'' = Some []"
    by blast+
  from s m c have "\<exists>segs. segment_contacts contacts_demo = Inr segs
          \<and> map fst segs = [''founders'', ''creatives'', ''operations'']
          \<and> map_of segs ''creatives'' = Some []"
    by (intro exI [of _ segs] conjI)
  with e show ?thesis by (rule conjI)
qed

text \<open>
  Claim C4, as stated, fails: a contact whose tag is a string outside the registry is
  put into no group. The list of one such contact yields three empty groups.
\<close>

theorem segment_contacts_unknown_tag_counterexample:
  "segment_contacts [contact_unknown] =
     Inr [(''founders'', []), (''creatives'', []), (''operations'', [])]"
  by (simp add: segment_contacts_def persona_keys_eq contact_unknown_def persona_tag_def
        dict_get_def in_segments_def)

text \<open>
  Claim C4, amended. Of a returned segmentation: a contact with no \<open>persona\<close> entry
  is in the group of the default persona (founders); a contact tagged with a persona of
  the registry is in that persona's group; a contact whose tag is not a persona of the
  registry is in no group (the guard \<open>if persona in segments\<close> drops it); and no
  contact is in the groups of two different personas.
\<close>

theorem segment_contacts_placement:
  assumes "segment_contacts contacts = Inr segs" and "c \<in> set contacts"
  shows "(map_of c ''persona'' = None \<longrightarrow>
            (\<exists>g. map_of segs ''founders'' = Some g \<and> c \<in> set g))
       \<and> (\<forall>p\<in>set persona_keys. persona_tag c = PStr p \<longrightarrow>
            (\<exists>g. map_of segs p = Some g \<and> c \<in> set g))
       \<and> ((\<forall>p\<in>set persona_keys. persona_tag c \<noteq> PStr p) \<longrightarrow>
            (\<forall>(p, g)\<in>set segs. c \<notin> set g))
       \<and> (\<forall>p g q h. (p, g) \<in> set segs \<and> (q, h) \<in> set segs \<and> c \<in> set g \<and> c \<in> set h
            \<longrightarrow> p = q)"
proof -
  note s = segment_contacts_Inr [OF assms(1)]
  have 1: "map_of c ''persona'' = None \<longrightarrow>
            (\<exists>g. map_of segs ''founders'' = Some g \<and> c \<in> set g)"
    using assms(2) by (simp add: s persona_tag_def dict_get_def)
  have 2: "\<forall>p\<in>set persona_keys. persona_tag c = PStr p \<longrightarrow>
            (\<exists>g. map_of segs p = Some g \<and> c \<in> set g)"
    using assms(2) by (auto simp: s persona_keys_eq)
  have 3: "(\<forall>p\<in>set persona_keys. persona_tag c \<noteq> PStr p) \<longrightarrow>
            (\<forall>(p, g)\<in>set segs. c \<notin> set g)"
    by (auto simp: s persona_keys_eq)
  have 4: "\<forall>p g q h. (p, g) \<in> set segs \<and> (q, h) \<in> set segs \<and> c \<in> set g \<and> c \<in> set h
            \<longrightarrow> p = q"
    by (auto simp: s)
  from 1 2 3 4 show ?thesis by blast
qed

theorem segment_contacts_placement_witness:
  "(\<exists>segs. segment_contacts [contact_creative, contact_untagged, contact_unknown] = Inr segs
      \<and> (\<exists>g. map_of segs ''founders'' = Some g \<and> contact_untagged \<in> set g)
      \<and> (\<exists>g. map_of segs ''creatives'' = Some g \<and> contact_creative \<in> set g)
      \<and> list_all (\<lambda>(p, g). contact_unknown \<notin> set g) segs)"
proof -
  let ?cs = "[contact_creative, contact_untagged, contact_unknown]"
  have h: "\<forall>c\<in>set ?cs. hashable (persona_tag c)"
    by (simp add: contact_creative_def contact_untagged_def contact_unknown_def
          persona_tag_def dict_get_def)
  from segment_contacts_eq [OF h] obtain segs where s: "segment_contacts ?cs = Inr segs"
    by blast
  have a: "\<exists>g. map_of segs ''founders'' = Some g \<and> contact_untagged \<in> set g"
    using segment_contacts_placement [OF s, of contact_untagged]
    by (simp add: contact_untagged_def)
  have b: "\<exists>g. map_of segs ''creatives'' = Some g \<and> contact_creative \<in> set g"
    using segment_contacts_placement [OF s, of contact_creative]
    by (simp add: persona_keys_eq contact_creative_def persona_tag_def dict_get_def)
  have c: "list_all (\<lambda>(p, g). contact_unknown \<notin> set g) segs"
    using segment_contacts_placement [OF s, of contact_unknown]
    by (simp add: persona_keys_eq contact_unknown_def persona_tag_def dict_get_def
          list_all_iff)
  from s a b c show ?thesis by blast
qed

subsection \<open>The campaign log\<close>

text \<open>
  Claim C10. A log entry returned by \<open>log_campaign\<close> has status \<open>simulated\<close> exactly
  when its mode is \<open>mock\<close> and status \<open>sent\<close> exactly when its mode is \<open>production\<close>;
  both follow the client's \<open>mock_mode\<close> flag alone; and its \<open>personas\<close> list is the key
  list of the \<open>newsletters\<close> dictionary of the input. An entry is returned whenever the
  input has the three keys read and its \<open>newsletters\<close> value is a dictionary.
\<close>

theorem log_campaign_status_mode:
  "(log_campaign self e campaign_data = Inr entry \<longrightarrow>
      (map_of entry ''status'' = Some (PStr ''simulated'')
         \<longleftrightarrow> map_of entry ''mode'' = Some (PStr ''mock''))
    \<and> (map_of entry ''status'' = Some (PStr ''sent'')
         \<longleftrightarrow> map_of entry ''mode'' = Some (PStr ''production''))
    \<and> (map_of entry ''mode'' = Some (PStr ''mock'') \<longleftrightarrow> mock_mode self)
    \<and> (map_of entry ''mode'' = Some (PStr ''production'') \<longleftrightarrow> \<not> mock_mode self)
    \<and> (\<exists>newsletters. map_of campaign_data ''newsletters'' = Some (PDict newsletters)
          \<and> map_of entry ''personas'' = Some (PList (map PStr (map fst newsletters)))))
   \<and> (map_of campaign_data ''campaign_id'' \<noteq> None
        \<and> map_of campaign_data ''blog_title'' \<noteq> None
        \<and> (\<exists>newsletters. map_of campaign_data ''newsletters'' = Some (PDict newsletters))
      \<longrightarrow> (\<exists>entry'. log_campaign self e campaign_data = Inr entry'))"
proof (intro conjI impI)
  assume a: "log_campaign self e campaign_data = Inr entry"
  then obtain cid title newsletters where
    n: "map_of campaign_data ''newsletters'' = Some (PDict newsletters)" and
    en: "entry = [(''campaign_id'', cid), (''blog_title'', title),
                 (''send_date'', PStr (format_timestamp e)),
                 (''personas'', PList (map (PStr \<circ> fst) newsletters)),
                 (''status'', PStr (if \<not> mock_mode self then ''sent'' else ''simulated'')),
                 (''mode'', PStr (if mock_mode self then ''mock'' else ''production''))]"
    by (auto simp: log_campaign_def dict_item_def dict_items_def
             split: option.splits pyval.splits sum.splits)
  show "map_of entry ''status'' = Some (PStr ''simulated'')
         \<longleftrightarrow> map_of entry ''mode'' = Some (PStr ''mock'')"
    by (simp add: en)
  show "map_of entry ''status'' = Some (PStr ''sent'')
         \<longleftrightarrow> map_of entry ''mode'' = Some (PStr ''production'')"
    by (simp add: en)
  show "map_of entry ''mode'' = Some (PStr ''mock'') \<longleftrightarrow> mock_mode self"
    by (simp add: en)
  show "map_of entry ''mode'' = Some (PStr ''production'') \<longleftrightarrow> \<not> mock_mode self"
    by (simp add: en)
  show "\<exists>newsletters. map_of campaign_data ''newsletters'' = Some (PDict newsletters)
          \<and> map_of entry ''personas'' = Some (PList (map PStr (map fst newsletters)))"
    using n by (simp add: en)
next
  assume "map_of campaign_data ''campaign_id'' \<noteq> None
        \<and> map_of campaign_data ''blog_title'' \<noteq> None
        \<and> (\<exists>newsletters. map_of campaign_data ''newsletters'' = Some (PDict newsletters))"
  then show "\<exists>entry'. log_campaign self e campaign_data = Inr entry'"
    by (auto simp: log_campaign_def dict_item_def dict_items_def)
qed

theorem log_campaign_status_mode_witness:
  "(\<exists>entry. log_campaign (crm_init None) env_demo campaign_data_demo = Inr entry
      \<and> map_of entry ''status'' = Some (PStr ''simulated'')
      \<and> map_of entry ''mode'' = Some (PStr ''mock'')
      \<and> map_of entry ''personas'' = Some (PList [PStr ''founders'', PStr ''creatives'']))
   \<and> (\<exists>entry. log_campaign (crm_init (Some ''pat-na1-0123456789abcdef'')) env_demo
                  campaign_data_demo = Inr entry
      \<and> map_of entry ''status'' = Some (PStr ''sent'')
      \<and> map_of entry ''mode'' = Some (PStr ''production''))"
proof -
  have k: "map_of campaign_data_demo ''campaign_id'' \<noteq> None
        \<and> map_of campaign_data_demo ''blog_title'' \<noteq> None
        \<and> (\<exists>newsletters. map_of campaign_data_demo ''newsletters'' = Some (PDict newsletters))"
    by (simp add: campaign_data_demo_def)
  have n: "map_of campaign_data_demo ''newsletters'' = Some (PDict newsletters_demo)"
    by (simp add: campaign_data_demo_def)
  have m1: "mock_mode (crm_init None)" by (simp add: crm_init_def)
  have m2: "\<not> mock_mode (crm_init (Some ''pat-na1-0123456789abcdef''))"
    by (simp add: crm_init_def)
  from log_campaign_status_mode [of "crm_init None" env_demo campaign_data_demo] k
  obtain e1 where e1: "log_campaign (crm_init None) env_demo campaign_data_demo = Inr e1"
    by blast
  from log_campaign_status_mode [of "crm_init None" env_demo campaign_data_demo e1] e1 m1 n
  have p1: "map_of e1 ''status'' = Some (PStr ''simulated'')"
       "map_of e1 ''mode'' = Some (PStr ''mock'')"
       "map_of e1 ''personas'' = Some (PList [PStr ''founders'', PStr ''creatives''])"
    by (auto simp: newsletters_demo_def)
  let ?live = "crm_init (Some ''pat-na1-0123456789abcdef'')"
  from log_campaign_status_mode [of ?live env_demo campaign_data_demo] k
  obtain e2 where e2: "log_campaign ?live env_demo campaign_data_demo = Inr e2"
    by blast
  from log_campaign_status_mode [of ?live env_demo campaign_data_demo e2] e2 m2
  have p2: "map_of e2 ''status'' = Some (PStr ''sent'')"
       "map_of e2 ''mode'' = Some (PStr ''production'')"
    by auto
  from e1 p1 e2 p2 show ?thesis by blast
qed

subsection \<open>Authentication failures during a send\<close>

lemma send_loop_auth_failure:
  assumes pre: "\<forall>(p, n)\<in>set pre. \<exists>payload. campaign_payload e cd p n = Inr payload
                    \<and> \<not> auth_failure (http e POST (marketing_url self) payload)"
    and cur: "campaign_payload e cd persona newsletter = Inr payload"
    and fail: "auth_failure (http e POST (marketing_url self) payload)"
  shows "\<exists>g'. send_loop self e cd (pre @ (persona, newsletter) # rest) results g
               = mock_campaign_distribution e cd g'"
  using pre
proof (induction pre arbitrary: results g)
  case Nil
  from fail obtain code body where
    r: "http e POST (marketing_url self) payload = Reply code body" and c: "code = 401 \<or> code = 403"
    by (auto simp: auth_failure_def split: http_reply.splits)
  from c have "is_http_error code" by (auto simp: is_http_error_def)
  with cur r c show ?case by auto
next
  case (Cons x pre)
  obtain p n where x: "x = (p, n)" by (cases x)
  from Cons.prems x obtain pl where
    pl: "campaign_payload e cd p n = Inr pl" and
    ok: "\<not> auth_failure (http e POST (marketing_url self) pl)"
    by auto
  from Cons.prems have IH: "\<And>results g. \<exists>g'. send_loop self e cd (pre @ (persona, newsletter) # rest) results g
               = mock_campaign_distribution e cd g'"
    by (intro Cons.IH) simp
  show ?case
  proof (cases "http e POST (marketing_url self) pl")
    case Failed
    then show ?thesis using pl x IH by (simp split: prod.splits)
  next
    case (Reply code body)
    with ok have nc: "\<not> (code = 401 \<or> code = 403)" by (simp add: auth_failure_def)
    show ?thesis using pl x Reply nc IH
      by (cases body) (simp_all split: prod.splits)
  qed
qed

lemma send_campaign_client: "fst (snd (send_campaign self e cd g)) = self"
  by (simp add: send_campaign_def Let_def split: sum.splits prod.splits)

text \<open>
  Claim C3, as stated, fails. A live client whose probe succeeds and whose first send is
  answered with 403 returns the simulated distribution, but its \<open>mock_mode\<close> flag is
  still false when \<open>send_campaign\<close> has returned, and the next
  \<open>create_or_update_contact\<close> calls the live API: it returns the body the server sent,
  not a mock contact.
\<close>

theorem send_campaign_mock_mode_counterexample:
  "\<not> mock_mode crm_live
   \<and> auth_failure (http env_live POST (marketing_url crm_live)
        (PDict [(''name'', PStr ''Automating Client Onboarding - founders''),
                (''subject'', PStr ''Scale faster''),
                (''emailBody'', PStr ''Hello founders''),
                (''previewText'', PStr ''ROI first''),
                (''campaignName'', PStr ''campaign_20250115_093000'')]))
   \<and> fst (send_campaign crm_live env_live campaign_data_demo rng_demo)
       = fst (mock_campaign_distribution env_live campaign_data_demo rng_demo)
   \<and> \<not> mock_mode (fst (snd (send_campaign crm_live env_live campaign_data_demo rng_demo)))
   \<and> create_or_update_contact
         (fst (snd (send_campaign crm_live env_live campaign_data_demo rng_demo)))
         env_live ''pat@example.com'' []
       = (PDict [(''id'', PStr ''51'')], crm_live)"
proof -
  have m: "\<not> mock_mode crm_live" by (simp add: crm_live_def crm_init_def)
  have u: "marketing_url crm_live = ''https://api.hubapi.com/marketing/v3/emails''"
    by (simp add: marketing_url_def crm_live_def crm_init_def HUBSPOT_BASE_URL_def)
  have b: "base_url crm_live = ''https://api.hubapi.com''"
    by (simp add: crm_live_def crm_init_def HUBSPOT_BASE_URL_def)
  have a: "check_marketing_access crm_live env_live"
    using m by (simp add: check_marketing_access_def env_live_def)
  have f: "auth_failure (http env_live POST (marketing_url crm_live) pl)" for pl
    by (simp add: u auth_failure_def env_live_def)
  have pl: "campaign_payload env_live campaign_data_demo ''founders''
              (PDict [(''subject_line'', PStr ''Scale faster''),
                      (''preview_text'', PStr ''ROI first''),
                      (''content'', PStr ''Hello founders'')])
            = Inr (PDict [(''name'', PStr ''Automating Client Onboarding - founders''),
                (''subject'', PStr ''Scale faster''),
                (''emailBody'', PStr ''Hello founders''),
                (''previewText'', PStr ''ROI first''),
                (''campaignName'', PStr ''campaign_20250115_093000'')])"
    by (simp add: campaign_payload_def campaign_data_demo_def dict_item_def subscript_def
          dict_items_def dict_get_def py_format_def)
  have r: "http env_live POST (marketing_url crm_live) pl = Reply 403 None" for pl
    by (simp add: u env_live_def)
  have nl: "dict_item campaign_data_demo ''newsletters'' = Inr (PDict newsletters_demo)"
    by (simp add: campaign_data_demo_def dict_item_def)
  have it: "dict_items (PDict newsletters_demo) = Inr newsletters_demo"
    by (simp add: dict_items_def)
  have sl: "send_loop crm_live env_live campaign_data_demo newsletters_demo [] rng_demo
            = mock_campaign_distribution env_live campaign_data_demo rng_demo"
    unfolding newsletters_demo_def by (simp add: pl r is_http_error_def)
  have s: "send_campaign crm_live env_live campaign_data_demo rng_demo
           = (fst (mock_campaign_distribution env_live campaign_data_demo rng_demo), crm_live,
              snd (mock_campaign_distribution env_live campaign_data_demo rng_demo))"
    using m a by (simp add: send_campaign_def nl it sl split: prod.splits)
  have c: "create_or_update_contact crm_live env_live ''pat@example.com'' []
           = (PDict [(''id'', PStr ''51'')], crm_live)"
    using m by (simp add: create_or_update_contact_def b env_live_def is_http_error_def)
  from m f s c show ?thesis by simp
qed


text \<open>
  Claim C3, amended. If the client is live, the probe succeeds and some send of the loop
  is answered with 401 or 403 (the sends before it were not), then \<open>send_campaign\<close>
  returns the simulated distribution for all personas, whatever had been collected; and
  \<open>send_campaign\<close> leaves the client as it was, so its \<open>mock_mode\<close> flag is still false
  after the call.
\<close>

theorem send_campaign_auth_failure:
  assumes live: "\<not> mock_mode self"
    and probe: "check_marketing_access self e"
    and nl: "map_of campaign_data ''newsletters'' = Some (PDict (pre @ (persona, newsletter) # rest))"
    and pre: "\<forall>(p, n)\<in>set pre. \<exists>payload. campaign_payload e campaign_data p n = Inr payload
                    \<and> \<not> auth_failure (http e POST (marketing_url self) payload)"
    and cur: "campaign_payload e campaign_data persona newsletter = Inr payload"
    and fail: "auth_failure (http e POST (marketing_url self) payload)"
  shows "(\<exists>g'. fst (send_campaign self e campaign_data g)
                 = fst (mock_campaign_distribution e campaign_data g'))
       \<and> fst (snd (send_campaign self e campaign_data g)) = self
       \<and> \<not> mock_mode (fst (snd (send_campaign self e campaign_data g)))"
proof -
  from send_loop_auth_failure [OF pre cur fail]
  obtain g' where
    "send_loop self e campaign_data (pre @ (persona, newsletter) # rest) [] g
       = mock_campaign_distribution e campaign_data g'"
    by blast
  then have "fst (send_campaign self e campaign_data g)
              = fst (mock_campaign_distribution e campaign_data g')"
    using live probe nl
    by (simp add: send_campaign_def dict_item_def dict_items_def split: prod.splits)
  moreover have "fst (snd (send_campaign self e campaign_data g)) = self"
    by (rule send_campaign_client)
  ultimately show ?thesis using live by auto
qed

theorem send_campaign_auth_failure_witness:
  "\<not> mock_mode crm_live
   \<and> check_marketing_access crm_live env_partial
   \<and> \<not> auth_failure (http env_partial POST (marketing_url crm_live) founders_payload_demo)
   \<and> auth_failure (http env_partial POST (marketing_url crm_live) creatives_payload_demo)
   \<and> (\<exists>g'. fst (send_campaign crm_live env_partial campaign_data_demo rng_demo)
              = fst (mock_campaign_distribution env_partial campaign_data_demo g'))
   \<and> fst (snd (send_campaign crm_live env_partial campaign_data_demo rng_demo)) = crm_live
   \<and> \<not> mock_mode (fst (snd (send_campaign crm_live env_partial campaign_data_demo rng_demo)))"
proof -
  let ?nf = "PDict [(''subject_line'', PStr ''Scale faster''),
                    (''preview_text'', PStr ''ROI first''),
                    (''content'', PStr ''Hello founders'')]"
  let ?nc = "PDict [(''subject_line'', PStr ''Make more''),
                    (''preview_text'', PStr ''Ideas''),
                    (''content'', PStr ''Hello creatives'')]"
  have m: "\<not> mock_mode crm_live" by (simp add: crm_live_def crm_init_def)
  have a: "check_marketing_access crm_live env_partial"
    using m by (simp add: check_marketing_access_def env_partial_def)
  have ok: "\<not> auth_failure (http env_partial POST (marketing_url crm_live) founders_payload_demo)"
    by (simp add: auth_failure_def env_partial_def)
  have f: "auth_failure (http env_partial POST (marketing_url crm_live) creatives_payload_demo)"
    by (simp add: auth_failure_def env_partial_def founders_payload_demo_def
          creatives_payload_demo_def)
  have pf: "campaign_payload env_partial campaign_data_demo ''founders'' ?nf
            = Inr founders_payload_demo"
    by (simp add: campaign_payload_def campaign_data_demo_def dict_item_def subscript_def
          dict_items_def dict_get_def py_format_def founders_payload_demo_def)
  have pc: "campaign_payload env_partial campaign_data_demo ''creatives'' ?nc
            = Inr creatives_payload_demo"
    by (simp add: campaign_payload_def campaign_data_demo_def dict_item_def subscript_def
          dict_items_def dict_get_def py_format_def creatives_payload_demo_def)
  have nl: "map_of campaign_data_demo ''newsletters''
            = Some (PDict ([(''founders'', ?nf)] @ (''creatives'', ?nc) # []))"
    by (simp add: campaign_data_demo_def newsletters_demo_def)
  have pre: "\<forall>(p, n)\<in>set [(''founders'', ?nf)].
               \<exists>payload. campaign_payload env_partial campaign_data_demo p n = Inr payload
                    \<and> \<not> auth_failure (http env_partial POST (marketing_url crm_live) payload)"
    using pf ok by simp
  from send_campaign_auth_failure [OF m a nl pre pc f, of rng_demo] m a ok f
  show ?thesis by simp
qed

subsection \<open>Sanitized file names\<close>

lemma rstrip_subset: "set (rstrip s) \<subseteq> set s"
  using set_dropWhileD [of _ isspace "rev s"] by (auto simp: rstrip_def)

lemma sanitize_filename_chars: "list_all filename_char (sanitize_filename text)"
proof -
  have "set (sanitize_filename text) \<subseteq> set (filter filename_char text)"
    unfolding sanitize_filename_def using set_take_subset rstrip_subset by fast
  then show ?thesis by (auto simp: list_all_iff)
qed

lemma sanitize_filename_length: "length (sanitize_filename text) \<le> 50"
  by (simp add: sanitize_filename_def)

text \<open>
  Claim C2 at the input of 49 letters \<open>a\<close>, a space and a letter \<open>b\<close>. The first
  application keeps all 51 characters through the filter and \<open>rstrip\<close>, and the slice
  \<open>[:50]\<close> then ends the result in the space; the second application strips that
  space. Applying the function twice differs from applying it once.
\<close>

theorem sanitize_filename_twice:
  "sanitize_filename (replicate 49 (CHR ''a'') @ '' b'') = replicate 49 (CHR ''a'') @ '' ''
   \<and> sanitize_filename (sanitize_filename (replicate 49 (CHR ''a'') @ '' b''))
       = replicate 49 (CHR ''a'')
   \<and> sanitize_filename (sanitize_filename (replicate 49 (CHR ''a'') @ '' b''))
       \<noteq> sanitize_filename (replicate 49 (CHR ''a'') @ '' b'')"
proof -
  have a: "filename_char (CHR ''a'')" "filename_char (CHR '' '')" "filename_char (CHR ''b'')"
    by (simp_all add: filename_char_def isalnum_def)
  have s: "isspace (CHR '' '')" "\<not> isspace (CHR ''a'')" "\<not> isspace (CHR ''b'')"
    by (simp_all add: isspace_def)
  have f: "filter filename_char (replicate n (CHR ''a'') @ t) = replicate n (CHR ''a'') @ filter filename_char t"
    for n t using a by simp
  have r1: "rstrip (replicate 49 (CHR ''a'') @ '' b'') = replicate 49 (CHR ''a'') @ '' b''"
    using s by (simp add: rstrip_def)
  have r2: "rstrip (replicate 49 (CHR ''a'') @ '' '') = replicate 49 (CHR ''a'')"
    using s by (simp add: rstrip_def dropWhile_append3 [of isspace "CHR ''a''"])
  have 1: "sanitize_filename (replicate 49 (CHR ''a'') @ '' b'') = replicate 49 (CHR ''a'') @ '' ''"
    using a by (simp add: sanitize_filename_def f r1)
  have 2: "sanitize_filename (replicate 49 (CHR ''a'') @ '' '') = replicate 49 (CHR ''a'')"
    using a by (simp add: sanitize_filename_def f r2)
  show ?thesis by (simp add: 1 2)
qed

subsection \<open>Cleaning a model response\<close>

lemma startswith_append: "startswith (p @ s) p"
  by (simp add: startswith_def)

lemma endswith_append: "endswith (s @ p) p"
  by (simp add: endswith_def)

text \<open>
  Claim C6, as stated, fails. A response fenced with a bare \<open>```\<close> keeps its opening
  fence in both versions, and the version of \<open>PerformanceAnalyzer\<close> does not return an
  unfenced text unchanged: it strips the surrounding whitespace.
\<close>

theorem clean_response_counterexample:
  "ContentGenerator_clean_response ''```\<newline>{}\<newline>```'' = ''```\<newline>{}\<newline>''
   \<and> PerformanceAnalyzer_clean_response ''```\<newline>{}\<newline>```'' = ''```\<newline>{}''
   \<and> PerformanceAnalyzer_clean_response '' {} '' = ''{}''"
  by (simp add: ContentGenerator_clean_response_def PerformanceAnalyzer_clean_response_def
        startswith_def endswith_def strip_def rstrip_def isspace_def)

text \<open>
  Claim C6, amended. A response that opens with \<open>```json\<close> and closes with \<open>```\<close>
  loses exactly that opening marker and that closing marker: \<open>ContentGenerator\<close>
  returns the text between them and \<open>PerformanceAnalyzer\<close> returns it stripped of
  surrounding whitespace. A text that neither starts with \<open>```json\<close> nor ends with
  \<open>```\<close> is returned unchanged by \<open>ContentGenerator\<close> and stripped of surrounding
  whitespace by \<open>PerformanceAnalyzer\<close>.
\<close>

theorem clean_response_json_fence:
  "ContentGenerator_clean_response (''```json'' @ body @ ''```'') = body
   \<and> PerformanceAnalyzer_clean_response (''```json'' @ body @ ''```'') = strip body
   \<and> (\<not> startswith raw_text ''```json'' \<and> \<not> endswith raw_text ''```'' \<longrightarrow>
         ContentGenerator_clean_response raw_text = raw_text
         \<and> PerformanceAnalyzer_clean_response raw_text = strip raw_text)"
proof -
  have s: "startswith (''```json'' @ body @ ''```'') ''```json''"
    by (rule startswith_append)
  have d: "drop (length ''```json'') (''```json'' @ body @ ''```'') = body @ ''```''"
    by simp
  have e: "endswith (body @ ''```'') ''```''"
    by (rule endswith_append)
  have t: "take (length (body @ ''```'') - length ''```'') (body @ ''```'') = body"
    by simp
  have 1: "ContentGenerator_clean_response (''```json'' @ body @ ''```'') = body"
    unfolding ContentGenerator_clean_response_def Let_def by (simp only: s d e t if_True)
  have 2: "PerformanceAnalyzer_clean_response (''```json'' @ body @ ''```'') = strip body"
    unfolding PerformanceAnalyzer_clean_response_def Let_def by (simp only: s d e t if_True)
  have 3: "\<not> startswith raw_text ''```json'' \<and> \<not> endswith raw_text ''```'' \<longrightarrow>
         ContentGenerator_clean_response raw_text = raw_text
         \<and> PerformanceAnalyzer_clean_response raw_text = strip raw_text"
    by (simp add: ContentGenerator_clean_response_def PerformanceAnalyzer_clean_response_def)
  from 1 2 3 show ?thesis by blast
qed

theorem clean_response_json_fence_witness:
  "ContentGenerator_clean_response ''```json\<newline>{}\<newline>```'' = ''\<newline>{}\<newline>''
   \<and> PerformanceAnalyzer_clean_response ''```json\<newline>{}\<newline>```'' = ''{}''
   \<and> \<not> startswith ''[1, 2] '' ''```json'' \<and> \<not> endswith ''[1, 2] '' ''```''
   \<and> ContentGenerator_clean_response ''[1, 2] '' = ''[1, 2] ''
   \<and> PerformanceAnalyzer_clean_response ''[1, 2] '' = ''[1, 2]''"
proof -
  have n: "\<not> startswith ''[1, 2] '' ''```json'' \<and> \<not> endswith ''[1, 2] '' ''```''"
    by (simp add: startswith_def endswith_def)
  have s1: "strip ''\<newline>{}\<newline>'' = ''{}''" and s2: "strip ''[1, 2] '' = ''[1, 2]''"
    by (simp_all add: strip_def rstrip_def isspace_def)
  from clean_response_json_fence [of "''\<newline>{}\<newline>''" "''[1, 2] ''"] n s1 s2
  show ?thesis by simp
qed

subsection \<open>Dashboard queries for absent artifacts\<close>

text \<open>
  Claim C8. For a campaign id whose log file does not exist, the campaign-detail view
  returns the text \<open>Campaign not found\<close> with status 404; for one whose performance
  file does not exist, the performance view returns a JSON error body with status 404.
  Neither is an exception escaping the view.
\<close>

theorem dashboard_not_found:
  "(\<not> os_path_exists fs (campaign_file campaign_id) \<longrightarrow>
      campaign_detail loads fs campaign_id = TextResponse ''Campaign not found'' 404
      \<and> (\<forall>err. campaign_detail loads fs campaign_id \<noteq> Raised err))
   \<and> (\<not> os_path_exists fs (performance_file campaign_id) \<longrightarrow>
      api_performance loads fs campaign_id
        = JsonResponse (PDict [(''error'', PStr ''Performance data not found'')]) 404
      \<and> (\<forall>err. api_performance loads fs campaign_id \<noteq> Raised err))"
  by (simp add: campaign_detail_def api_performance_def)

theorem dashboard_not_found_witness:
  "campaign_file ''campaign_19990101_000000'' = ''data/campaigns/campaign_19990101_000000_log.json''
   \<and> \<not> os_path_exists fs_demo (campaign_file ''campaign_19990101_000000'')
   \<and> campaign_detail loads_demo fs_demo ''campaign_19990101_000000''
       = TextResponse ''Campaign not found'' 404
   \<and> performance_file ''campaign_20250115_093000''
       = ''data/analytics/campaign_20250115_093000_performance.json''
   \<and> \<not> os_path_exists fs_demo (performance_file ''campaign_20250115_093000'')
   \<and> api_performance loads_demo fs_demo ''campaign_20250115_093000''
       = JsonResponse (PDict [(''error'', PStr ''Performance data not found'')]) 404"
proof -
  have c: "campaign_file ''campaign_19990101_000000''
           = ''data/campaigns/campaign_19990101_000000_log.json''"
    by (simp add: campaign_file_def CAMPAIGNS_DIR_def DATA_DIR_def os_path_join_def
          startswith_def endswith_def)
  have p: "performance_file ''campaign_20250115_093000''
           = ''data/analytics/campaign_20250115_093000_performance.json''"
    by (simp add: performance_file_def ANALYTICS_DIR_def DATA_DIR_def os_path_join_def
          startswith_def endswith_def)
  have nc: "\<not> os_path_exists fs_demo (campaign_file ''campaign_19990101_000000'')"
    unfolding c by (simp add: os_path_exists_def fs_demo_def)
  have np: "\<not> os_path_exists fs_demo (performance_file ''campaign_20250115_093000'')"
    unfolding p by (simp add: os_path_exists_def fs_demo_def)
  from dashboard_not_found [where fs = fs_demo and loads = loads_demo
      and campaign_id = "''campaign_19990101_000000''"] nc
  have 1: "campaign_detail loads_demo fs_demo ''campaign_19990101_000000''
           = TextResponse ''Campaign not found'' 404"
    by blast
  from dashboard_not_found [where fs = fs_demo and loads = loads_demo
      and campaign_id = "''campaign_20250115_093000''"] np
  have 2: "api_performance loads_demo fs_demo ''campaign_20250115_093000''
           = JsonResponse (PDict [(''error'', PStr ''Performance data not found'')]) 404"
    by blast
  from c p nc np 1 2 show ?thesis by blast
qed

text \<open>When the log file is there, the same view renders it: the 404 is not unconditional.\<close>

lemma campaign_detail_found:
  "campaign_detail loads_demo fs_demo ''campaign_20250115_093000''
     = Template ''campaign.html''
         [(''campaign'', PDict []), (''performance'', PNone), (''summary'', PNone)]"
  by (simp add: campaign_detail_def campaign_file_def performance_file_def summary_file_def
        CAMPAIGNS_DIR_def ANALYTICS_DIR_def DATA_DIR_def os_path_join_def startswith_def
        endswith_def os_path_exists_def fs_demo_def json_load_file_def open_read_def
        load_if_exists_def loads_demo_def)

subsection \<open>Floating-point rounding\<close>

lemma round_half_even_mono: "x \<le> y \<Longrightarrow> round_half_even x \<le> round_half_even y"
proof -
  assume xy: "x \<le> y"
  have fl: "\<lfloor>x\<rfloor> \<le> \<lfloor>y\<rfloor>" using xy by (rule floor_mono)
  show ?thesis
  proof (cases "\<lfloor>x\<rfloor> = \<lfloor>y\<rfloor>")
    case True
    then have "x - of_int \<lfloor>x\<rfloor> \<le> y - of_int \<lfloor>y\<rfloor>" using xy by simp
    then show ?thesis using True
      by (auto simp: round_half_even_def Let_def)
  next
    case False
    with fl have "\<lfloor>x\<rfloor> + 1 \<le> \<lfloor>y\<rfloor>" by simp
    moreover have "round_half_even x \<le> \<lfloor>x\<rfloor> + 1"
      by (auto simp: round_half_even_def Let_def)
    moreover have "\<lfloor>y\<rfloor> \<le> round_half_even y"
      by (auto simp: round_half_even_def Let_def)
    ultimately show ?thesis by linarith
  qed
qed

lemma round_half_even_of_int [simp]: "round_half_even (of_int n) = n"
  by (simp add: round_half_even_def)

lemma round_half_even_nonneg: "0 \<le> x \<Longrightarrow> 0 \<le> round_half_even x"
  using round_half_even_mono [of 0 x] round_half_even_of_int [of 0] by simp

lemma ulp_pos: "0 < ulp x"
  by (simp add: ulp_def)

lemma binade_ge: "- 1022 \<le> binade x"
  by (simp add: binade_def)

lemma powi_scale: "0 \<le> k \<Longrightarrow> (2::rat) powi (k - 1074) * 2 ^ 1074 = 2 ^ nat k"
proof -
  assume k: "0 \<le> k"
  have "(2::rat) powi (k - 1074) * 2 ^ 1074 = 2 powi (k - 1074) * 2 powi 1074"
    by simp
  also have "\<dots> = 2 powi (k - 1074 + 1074)"
    by (subst power_int_add) simp_all
  also have "\<dots> = 2 ^ nat k" using k by (simp add: power_int_def)
  finally show ?thesis .
qed

lemma binade_eqI:
  assumes e: "- 1022 \<le> e" and lo: "2 powi e \<le> x" and hi: "x < 2 powi (e + 1)"
  shows "binade x = e"
proof -
  have pos: "0 < x" using lo by (meson less_le_trans zero_less_numeral zero_less_power_int)
  let ?N = "\<lfloor>x * 2 ^ 1074\<rfloor>"
  have s1: "(2::rat) powi e * 2 ^ 1074 = 2 ^ nat (e + 1074)"
    using powi_scale [of "e + 1074"] e by simp
  have s2: "(2::rat) powi (e + 1) * 2 ^ 1074 = 2 ^ nat (e + 1075)"
    using powi_scale [of "e + 1075"] e by (simp add: algebra_simps)
  have "(2::rat) ^ nat (e + 1074) \<le> x * 2 ^ 1074"
    unfolding s1 [symmetric] using lo by simp
  then have "of_int (2 ^ nat (e + 1074)) \<le> x * 2 ^ 1074" by simp
  then have l: "2 ^ nat (e + 1074) \<le> ?N" by (simp only: le_floor_iff)
  have "x * 2 ^ 1074 < (2::rat) ^ nat (e + 1075)"
    unfolding s2 [symmetric] using hi by simp
  then have "x * 2 ^ 1074 < of_int (2 ^ nat (e + 1075))" by simp
  then have u: "?N < 2 ^ nat (e + 1075)" by (simp only: floor_less_iff)
  have b1: "bitlen ?N \<le> e + 1075"
    using u e by (simp add: bitlen_le_iff_power)
  have "nat (e + 1075) - 1 = nat (e + 1074)" using e by simp
  then have b2: "e + 1075 \<le> bitlen ?N"
    using l by (simp add: bitlen_ge_iff_power)
  from b1 b2 have "bitlen ?N = e + 1075" by simp
  then show ?thesis using e pos by (simp add: binade_def)
qed

lemma binade_upper:
  assumes "0 \<le> x"
  shows "x < 2 powi (binade x + 1)"
proof -
  let ?N = "\<lfloor>x * 2 ^ 1074\<rfloor>"
  let ?k = "binade x + 1075"
  have k: "0 \<le> ?k" using binade_ge [of x] by simp
  have "bitlen ?N \<le> ?k" using assms by (simp add: binade_def)
  then have "?N < 2 ^ nat ?k" by (simp add: bitlen_le_iff_power)
  then have "x * 2 ^ 1074 < of_int (2 ^ nat ?k)" by (simp only: floor_less_iff)
  then have "x * 2 ^ 1074 < (2::rat) ^ nat ?k" by simp
  also have "\<dots> = 2 powi (binade x + 1) * 2 ^ 1074"
    using powi_scale [of ?k] k by (simp add: algebra_simps)
  finally show ?thesis by simp
qed

lemma binade_lower:
  assumes "0 \<le> x" and "- 1022 < binade x"
  shows "2 powi (binade x) \<le> x"
proof -
  let ?N = "\<lfloor>x * 2 ^ 1074\<rfloor>"
  let ?k = "binade x + 1074"
  have k: "0 \<le> ?k" using binade_ge [of x] by simp
  have b: "binade x = bitlen ?N - 1075" using assms by (simp add: binade_def max_def split: if_splits)
  then have "?k + 1 \<le> bitlen ?N" by simp
  then have "2 ^ (nat (?k + 1) - 1) \<le> ?N"
    using k by (simp add: bitlen_ge_iff_power)
  moreover have "nat (?k + 1) - 1 = nat ?k" using k by simp
  ultimately have "2 ^ nat ?k \<le> ?N" by simp
  then have "of_int (2 ^ nat ?k) \<le> x * 2 ^ 1074" by (simp only: le_floor_iff)
  then have "(2::rat) ^ nat ?k \<le> x * 2 ^ 1074" by simp
  moreover have "(2::rat) ^ nat ?k = 2 powi (binade x) * 2 ^ 1074"
    using powi_scale [of ?k] k by simp
  ultimately show ?thesis by simp
qed

lemma fl_nonneg: "0 \<le> x \<Longrightarrow> 0 \<le> fl x"
  using ulp_pos [of x] round_half_even_nonneg [of "x / ulp x"]
  by (simp add: fl_def)

text \<open>A power of two of the binade is a multiple of the unit in the last place.\<close>

lemma ulp_top: "2 powi (binade x + 1) / ulp x = of_int (2 ^ 53)"
proof -
  have "(2::rat) powi (binade x + 1) / ulp x = 2 powi (binade x + 1 - (binade x - 52))"
    unfolding ulp_def by (subst power_int_diff) simp_all
  also have "\<dots> = 2 powi 53" by simp
  finally show ?thesis by simp
qed

lemma ulp_bottom: "2 powi (binade x) / ulp x = of_int (2 ^ 52)"
proof -
  have "(2::rat) powi (binade x) / ulp x = 2 powi (binade x - (binade x - 52))"
    unfolding ulp_def by (subst power_int_diff) simp_all
  also have "\<dots> = 2 powi 52" by simp
  finally show ?thesis by simp
qed

lemma fl_le_top:
  assumes "0 \<le> x"
  shows "fl x \<le> 2 powi (binade x + 1)"
proof -
  have "x / ulp x \<le> 2 powi (binade x + 1) / ulp x"
    using binade_upper [OF assms] ulp_pos [of x] by (simp add: divide_right_mono)
  then have "round_half_even (x / ulp x) \<le> round_half_even (2 powi (binade x + 1) / ulp x)"
    by (rule round_half_even_mono)
  then have "round_half_even (x / ulp x) \<le> 2 ^ 53"
    unfolding ulp_top by (simp only: round_half_even_of_int)
  then have "(of_int (round_half_even (x / ulp x)) :: rat) \<le> of_int (2 ^ 53)"
    by (simp only: of_int_le_iff)
  then have "fl x \<le> of_int (2 ^ 53) * ulp x"
    unfolding fl_def using ulp_pos [of x] by (simp only: mult_le_cancel_right_pos)
  also have "of_int (2 ^ 53) * ulp x = 2 powi (binade x + 1)"
    using ulp_top [of x] ulp_pos [of x] by (simp add: field_simps)
  finally show ?thesis .
qed

lemma fl_ge_bottom:
  assumes "0 \<le> x" and "- 1022 < binade x"
  shows "2 powi (binade x) \<le> fl x"
proof -
  have "2 powi (binade x) / ulp x \<le> x / ulp x"
    using binade_lower [OF assms] ulp_pos [of x] by (simp add: divide_right_mono)
  then have "round_half_even (2 powi (binade x) / ulp x) \<le> round_half_even (x / ulp x)"
    by (rule round_half_even_mono)
  then have "2 ^ 52 \<le> round_half_even (x / ulp x)"
    unfolding ulp_bottom by (simp only: round_half_even_of_int)
  then have "(of_int (2 ^ 52) :: rat) \<le> of_int (round_half_even (x / ulp x))"
    by (simp only: of_int_le_iff)
  then have "of_int (2 ^ 52) * ulp x \<le> fl x"
    unfolding fl_def using ulp_pos [of x] by (simp only: mult_le_cancel_right_pos)
  moreover have "of_int (2 ^ 52) * ulp x = 2 powi (binade x)"
    using ulp_bottom [of x] ulp_pos [of x] by (simp add: field_simps)
  ultimately show ?thesis by simp
qed

lemma binade_mono:
  assumes "0 \<le> x" and "x \<le> y"
  shows "binade x \<le> binade y"
proof (rule ccontr)
  assume "\<not> binade x \<le> binade y"
  then have lt: "binade y + 1 \<le> binade x" by simp
  then have b: "- 1022 < binade x" using binade_ge [of y] by simp
  have "y < 2 powi (binade y + 1)" using assms by (intro binade_upper) simp
  also have "\<dots> \<le> 2 powi (binade x)" using lt by (intro power_int_increasing) simp_all
  also have "\<dots> \<le> x" using assms(1) b by (rule binade_lower)
  finally show False using assms(2) by simp
qed

text \<open>Rounding to the nearest double is monotone (on the non-negative numbers).\<close>

lemma fl_mono:
  assumes "0 \<le> x" and "x \<le> y"
  shows "fl x \<le> fl y"
proof (cases "binade x = binade y")
  case True
  then have u: "ulp x = ulp y" by (simp add: ulp_def)
  have "x / ulp y \<le> y / ulp y" using assms(2) ulp_pos [of y] by (simp add: divide_right_mono)
  then have "round_half_even (x / ulp y) \<le> round_half_even (y / ulp y)"
    by (rule round_half_even_mono)
  then have "(of_int (round_half_even (x / ulp y)) :: rat) \<le> of_int (round_half_even (y / ulp y))"
    by (simp only: of_int_le_iff)
  then show ?thesis
    unfolding fl_def u using ulp_pos [of y] by (simp only: mult_le_cancel_right_pos)
next
  case False
  with binade_mono [OF assms] have lt: "binade x + 1 \<le> binade y" by simp
  then have b: "- 1022 < binade y" using binade_ge [of x] by simp
  have y: "0 \<le> y" using assms by simp
  have "fl x \<le> 2 powi (binade x + 1)" using assms(1) by (rule fl_le_top)
  also have "\<dots> \<le> 2 powi (binade y)" using lt by (intro power_int_increasing) simp_all
  also have "\<dots> \<le> fl y" using y b by (rule fl_ge_bottom)
  finally show ?thesis .
qed

lemma binade_le:
  assumes "0 \<le> y" and "y < 2 powi (e + 1)" and e: "- 1022 \<le> e"
  shows "binade y \<le> e"
proof -
  let ?N = "\<lfloor>y * 2 ^ 1074\<rfloor>"
  have s: "(2::rat) powi (e + 1) * 2 ^ 1074 = 2 ^ nat (e + 1075)"
    using powi_scale [of "e + 1075"] e by (simp add: algebra_simps)
  have "y * 2 ^ 1074 < (2::rat) ^ nat (e + 1075)"
    unfolding s [symmetric] using assms(2) by simp
  then have "y * 2 ^ 1074 < of_int (2 ^ nat (e + 1075))" by simp
  then have "?N < 2 ^ nat (e + 1075)" by (simp only: floor_less_iff)
  then have "bitlen ?N \<le> e + 1075" using e by (simp add: bitlen_le_iff_power)
  then show ?thesis using assms(1) e by (simp add: binade_def)
qed

lemma binade_power: "- 1022 \<le> m \<Longrightarrow> binade (2 powi m) = m"
  by (rule binade_eqI) (simp_all add: power_int_strict_increasing)

text \<open>A non-negative multiple of its own unit in the last place is left as it is.\<close>

lemma fl_fixed:
  assumes "y = of_int k * ulp y"
  shows "fl y = y"
proof -
  have "y / ulp y = of_int k" using assms ulp_pos [of y] by (simp add: field_simps)
  then have "round_half_even (y / ulp y) = k" by simp
  then show ?thesis using assms by (simp add: fl_def)
qed

lemma fl_representable:
  assumes "0 \<le> x"
  shows "\<exists>k. fl x = of_int k * ulp (fl x)"
proof -
  let ?k = "round_half_even (x / ulp x)"
  have f: "fl x = of_int ?k * ulp x" by (simp add: fl_def)
  have nn: "0 \<le> fl x" using assms by (rule fl_nonneg)
  have top: "fl x \<le> 2 powi (binade x + 1)" using assms by (rule fl_le_top)
  show ?thesis
  proof (cases "fl x = 2 powi (binade x + 1)")
    case True
    have b: "binade (fl x) = binade x + 1"
      unfolding True using binade_ge [of x] by (intro binade_power) simp
    have "ulp (fl x) = 2 powi (binade x + 1 - 52)" by (simp add: ulp_def b)
    then have "of_int (2 ^ 52) * ulp (fl x) = 2 powi 52 * 2 powi (binade x + 1 - 52)"
      by simp
    also have "\<dots> = 2 powi (52 + (binade x + 1 - 52))"
      by (subst power_int_add) simp_all
    also have "52 + (binade x + 1 - 52) = binade x + 1" by simp
    also have "2 powi (binade x + 1) = fl x" by (simp only: True)
    finally show ?thesis by metis
  next
    case False
    with top have "fl x < 2 powi (binade x + 1)" by simp
    then have le: "binade (fl x) \<le> binade x"
      using nn binade_ge [of x] by (intro binade_le) simp_all
    define d where "d = binade x - binade (fl x)"
    have d: "0 \<le> d" using le by (simp add: d_def)
    have "ulp x = 2 powi (d + (binade (fl x) - 52))" by (simp add: ulp_def d_def)
    also have "\<dots> = 2 powi d * ulp (fl x)"
      unfolding ulp_def by (subst power_int_add) simp_all
    also have "(2::rat) powi d = of_int (2 ^ nat d)" using d by (simp add: power_int_def)
    finally have "fl x = of_int (?k * 2 ^ nat d) * ulp (fl x)"
      by (simp add: f)
    then show ?thesis by blast
  qed
qed

text \<open>Rounding is idempotent: the result of a float operation is a double.\<close>

lemma fl_idem: "0 \<le> x \<Longrightarrow> fl (fl x) = fl x"
  using fl_representable [of x] fl_fixed [of "fl x"] by blast

text \<open>Multiplying a non-negative double by a factor of at most one does not raise it.\<close>

lemma fl_mult_le:
  assumes "0 \<le> x" and "0 \<le> c" and "c \<le> 1"
  shows "fl (fl x * c) \<le> fl x"
proof -
  have nn: "0 \<le> fl x" using assms(1) by (rule fl_nonneg)
  then have "0 \<le> fl x * c" and "fl x * c \<le> fl x"
    using assms by (simp_all add: mult_left_le)
  then have "fl (fl x * c) \<le> fl (fl x)" by (rule fl_mono)
  then show ?thesis using assms(1) by (simp add: fl_idem)
qed

lemma py_round4_mono:
  assumes "0 \<le> x" and "x \<le> y"
  shows "py_round4 x \<le> py_round4 y"
proof -
  have "round_half_even (x * 10000) \<le> round_half_even (y * 10000)"
    using assms(2) by (intro round_half_even_mono) simp
  moreover have "0 \<le> round_half_even (x * 10000)"
    using assms(1) by (intro round_half_even_nonneg) simp
  ultimately show ?thesis
    unfolding py_round4_def by (intro fl_mono) (simp_all add: divide_right_mono)
qed

lemma py_round4_nonneg: "0 \<le> x \<Longrightarrow> 0 \<le> py_round4 x"
  unfolding py_round4_def
  by (intro fl_nonneg) (simp add: round_half_even_nonneg)

lemma round_half_even_eqI:
  assumes "of_int n - 1 / 2 < x" and "x < of_int n + 1 / 2"
  shows "round_half_even x = n"
proof (cases "of_int n \<le> x")
  case True
  then have "\<lfloor>x\<rfloor> = n" using assms(2) by (intro floor_unique) simp_all
  then show ?thesis using assms(2) by (simp add: round_half_even_def)
next
  case False
  then have "\<lfloor>x\<rfloor> = n - 1" using assms(1) by (intro floor_unique) simp_all
  then show ?thesis using assms(1) False by (simp add: round_half_even_def)
qed

text \<open>The literal \<open>0.95\<close>: the double it denotes, and what \<open>round(0.95, 4)\<close> yields.\<close>

lemma binade_95: "binade (19 / 20) = - 1"
  by (rule binade_eqI) (simp_all add: power_int_minus)

lemma ulp_95: "ulp (19 / 20) = 1 / 9007199254740992"
  by (simp add: ulp_def binade_95 power_int_minus)

lemma fl_95: "fl (19 / 20) = 8556839292003942 / 9007199254740992"
proof -
  have "round_half_even (19 / 20 / (1 / 9007199254740992)) = 8556839292003942"
    by (rule round_half_even_eqI) simp_all
  then show ?thesis unfolding fl_def ulp_95 by simp
qed

lemma fl_95_le: "fl (95 / 100) \<le> 95 / 100"
  by (simp add: fl_95)

lemma py_round4_95: "py_round4 (fl (95 / 100)) = fl (95 / 100)"
proof -
  have "round_half_even (fl (19 / 20) * 10000) = 9500"
    unfolding fl_95 by (rule round_half_even_eqI) simp_all
  then show ?thesis by (simp add: py_round4_def)
qed

text \<open>One is a double, so a literal below one denotes a double that is at most one.\<close>

lemma fl_one: "fl 1 = 1"
proof -
  have b: "binade 1 = 0" using binade_power [of 0] by simp
  have u: "ulp 1 = 1 / 4503599627370496" by (simp add: ulp_def b power_int_minus)
  have "(1::rat) = of_int 4503599627370496 * ulp 1" unfolding u by simp
  then show ?thesis by (rule fl_fixed)
qed

lemma fl_le_one: "0 \<le> c \<Longrightarrow> c \<le> 1 \<Longrightarrow> fl c \<le> 1"
  using fl_mono [of c 1] by (simp add: fl_one)

text \<open>The integers from 64 to 127 are doubles.\<close>

lemma fl_of_int_binade6:
  assumes "64 \<le> n" and "n < 128"
  shows "fl (of_int n) = of_int n"
proof -
  have b: "binade (of_int n) = 6"
    using assms by (intro binade_eqI) simp_all
  have u: "ulp (of_int n :: rat) = 1 / 70368744177664"
    by (simp add: ulp_def b power_int_minus)
  have "(of_int n :: rat) = of_int (n * 70368744177664) * ulp (of_int n :: rat)"
    unfolding u by simp
  then show ?thesis by (rule fl_fixed)
qed

subsection \<open>Simulated performance metrics\<close>

lemma randint_range:
  assumes "a \<le> b"
  shows "a \<le> fst (randint a b g) \<and> fst (randint a b g) \<le> b"
proof -
  define r where "r = int (draws g (pos g)) mod (b - a + 1)"
  have p: "0 < b - a + 1" using assms by simp
  have "0 \<le> r" unfolding r_def using p by (rule pos_mod_sign)
  moreover have "r < b - a + 1" unfolding r_def using p by (rule pos_mod_bound)
  moreover have "fst (randint a b g) = a + r"
    by (simp add: randint_def next_raw_def r_def)
  ultimately show ?thesis by simp
qed

lemma random_unit_nonneg: "0 \<le> fst (random_unit g)"
  by (simp add: random_unit_def next_raw_def)

lemma uniform_double:
  assumes "0 \<le> a" and "a \<le> b"
  shows "\<exists>z. 0 \<le> z \<and> fst (uniform a b g) = fl z"
proof -
  let ?u = "fst (random_unit g)"
  have a: "0 \<le> fl a" using assms(1) by (rule fl_nonneg)
  have "fl a \<le> fl b" using assms by (rule fl_mono)
  then have "0 \<le> fl (fl b - fl a)" by (intro fl_nonneg) simp
  then have "0 \<le> fl (fl (fl b - fl a) * ?u)"
    using random_unit_nonneg [of g] by (intro fl_nonneg) simp
  with a have "0 \<le> fl a + fl (fl (fl b - fl a) * ?u)" by simp
  moreover have "fst (uniform a b g) = fl (fl a + fl (fl (fl b - fl a) * ?u))"
    by (simp add: uniform_def split: prod.splits)
  ultimately show ?thesis by blast
qed

text \<open>
  The rates before rounding: the open rate is at most the double \<open>0.95\<close>, and the
  click rate is non-negative, at most the product \<open>open_rate * 0.8\<close> as the program
  computes it, and at most the open rate.
\<close>

lemma engagement_rates_bounds:
  assumes bo: "0 \<le> zo" and bc: "0 \<le> base_click"
    and r: "engagement_rates persona (fl zo) base_click = (open_rate, click_rate)"
  shows "open_rate \<le> fl (95 / 100) \<and> 0 \<le> open_rate \<and> 0 \<le> click_rate
         \<and> click_rate \<le> fl (open_rate * fl (8 / 10)) \<and> click_rate \<le> open_rate"
proof -
  define x where "x = (if persona = ''founders'' then fl (fl zo * fl (11 / 10))
                       else if persona = ''creatives'' then fl (fl zo * fl (12 / 10))
                       else fl zo)"
  define y where "y = (if persona = ''founders'' then fl (base_click * fl (9 / 10))
                       else if persona = ''creatives'' then fl (base_click * fl (13 / 10))
                       else fl (base_click * fl (11 / 10)))"
  have o: "open_rate = min x (fl (95 / 100))"
    and c: "click_rate = min y (fl (open_rate * fl (8 / 10)))"
    using r by (auto simp: engagement_rates_def x_def y_def Let_def split: if_splits)
  have nzo: "0 \<le> fl zo" using bo by (rule fl_nonneg)
  have lit: "0 \<le> fl q" if "0 \<le> q" for q using that by (rule fl_nonneg)
  have "\<exists>z. 0 \<le> z \<and> x = fl z"
  proof (cases "persona = ''founders''")
    case True
    have "0 \<le> fl zo * fl (11 / 10)" using nzo lit [of "11 / 10"] by simp
    moreover have "x = fl (fl zo * fl (11 / 10))" using True by (simp add: x_def)
    ultimately show ?thesis by blast
  next
    case False
    show ?thesis
    proof (cases "persona = ''creatives''")
      case True
      have "0 \<le> fl zo * fl (12 / 10)" using nzo lit [of "12 / 10"] by simp
      moreover have "x = fl (fl zo * fl (12 / 10))" using True False by (simp add: x_def)
      ultimately show ?thesis by blast
    next
      case other: False
      have "x = fl zo" using False other by (simp add: x_def)
      with bo show ?thesis by blast
    qed
  qed
  then have "\<exists>z. 0 \<le> z \<and> open_rate = fl z"
  proof (cases "x \<le> fl (95 / 100)")
    case True
    then have "open_rate = x" by (simp add: o)
    with \<open>\<exists>z. 0 \<le> z \<and> x = fl z\<close> show ?thesis by simp
  next
    case False
    then have "open_rate = fl (95 / 100)" by (simp add: o)
    moreover have "(0::rat) \<le> 95 / 100" by simp
    ultimately show ?thesis by blast
  qed
  then obtain z where z: "0 \<le> z" and oz: "open_rate = fl z" by blast
  have y0: "0 \<le> y"
    unfolding y_def using bc lit [of "9 / 10"] lit [of "13 / 10"] lit [of "11 / 10"]
    by (auto intro!: fl_nonneg)
  have o0: "0 \<le> open_rate" unfolding oz using z by (rule fl_nonneg)
  have c8: "0 \<le> fl (8 / 10 :: rat)" "fl (8 / 10 :: rat) \<le> 1"
    by (simp_all add: fl_nonneg fl_le_one)
  have p0: "0 \<le> fl (open_rate * fl (8 / 10))"
    using o0 c8 by (intro fl_nonneg) simp
  have p1: "fl (open_rate * fl (8 / 10)) \<le> open_rate"
    unfolding oz using z c8 by (intro fl_mult_le) simp_all
  have 1: "open_rate \<le> fl (95 / 100)" unfolding o by simp
  have 3: "0 \<le> click_rate" unfolding c using y0 p0 by simp
  have 4: "click_rate \<le> fl (open_rate * fl (8 / 10))" unfolding c by simp
  from 4 p1 have 5: "click_rate \<le> open_rate" by simp
  from 1 o0 3 4 5 show ?thesis by blast
qed

lemma delivered_lower_le:
  assumes "80 \<le> sent" and "sent \<le> 100"
  shows "py_int (fl (of_int sent * fl (85 / 100))) \<le> sent"
proof -
  have c: "0 \<le> fl (85 / 100 :: rat)" "fl (85 / 100 :: rat) \<le> 1"
    by (simp_all add: fl_nonneg fl_le_one)
  have s: "(0::rat) \<le> of_int sent" using assms by simp
  have "0 \<le> of_int sent * fl (85 / 100)" using s c by simp
  moreover have "of_int sent * fl (85 / 100) \<le> of_int sent"
    using s c by (simp add: mult_left_le)
  ultimately have "fl (of_int sent * fl (85 / 100)) \<le> fl (of_int sent)"
    by (rule fl_mono)
  also have "fl (of_int sent) = of_int sent"
    using assms by (intro fl_of_int_binade6) simp_all
  finally have le: "fl (of_int sent * fl (85 / 100)) \<le> of_int sent" .
  have nn: "0 \<le> fl (of_int sent * fl (85 / 100))"
    using s c by (intro fl_nonneg) simp
  have "\<lfloor>fl (of_int sent * fl (85 / 100))\<rfloor> \<le> \<lfloor>of_int sent :: rat\<rfloor>"
    using le by (rule floor_mono)
  then show ?thesis using nn by (simp add: py_int_def)
qed

text \<open>The record built for one persona.\<close>

lemma simulate_persona_metrics:
  "\<exists>sent delivered open_rate click_rate unsub_rate bounce_rate.
     fst (simulate_persona persona g) =
       [(''sent'', PInt sent), (''delivered'', PInt delivered),
        (''opened'', PFloat (py_round4 open_rate)),
        (''clicked'', PFloat (py_round4 click_rate)),
        (''unsubscribed'', PFloat (py_round4 unsub_rate)),
        (''bounced'', PFloat (py_round4 bounce_rate))]
     \<and> 80 \<le> sent \<and> sent \<le> 100
     \<and> py_int (fl (of_int sent * fl (85 / 100))) \<le> delivered \<and> delivered \<le> sent
     \<and> click_rate \<le> fl (open_rate * fl (8 / 10))
     \<and> 0 \<le> py_round4 click_rate
     \<and> py_round4 click_rate \<le> py_round4 open_rate
     \<and> py_round4 open_rate \<le> fl (95 / 100)
     \<and> fl (95 / 100) \<le> 95 / 100"
proof -
  define sent where "sent = fst (randint 80 100 g)"
  define g1 where "g1 = snd (randint 80 100 g)"
  define lo where "lo = py_int (fl (of_int sent * fl (85 / 100)))"
  define delivered where "delivered = fst (randint lo sent g1)"
  define g2 where "g2 = snd (randint lo sent g1)"
  define base_open where "base_open = fst (uniform (18 / 100) (35 / 100) g2)"
  define g3 where "g3 = snd (uniform (18 / 100) (35 / 100) g2)"
  define base_click where "base_click = fst (uniform (5 / 100) (15 / 100) g3)"
  define g4 where "g4 = snd (uniform (5 / 100) (15 / 100) g3)"
  define open_rate where "open_rate = fst (engagement_rates persona base_open base_click)"
  define click_rate where "click_rate = snd (engagement_rates persona base_open base_click)"
  define unsub_rate where "unsub_rate = fst (uniform (1 / 1000) (1 / 100) g4)"
  define g5 where "g5 = snd (uniform (1 / 1000) (1 / 100) g4)"
  define bounce_rate where "bounce_rate = fst (uniform (1 / 100) (5 / 100) g5)"
  have eq: "fst (simulate_persona persona g) =
       [(''sent'', PInt sent), (''delivered'', PInt delivered),
        (''opened'', PFloat (py_round4 open_rate)),
        (''clicked'', PFloat (py_round4 click_rate)),
        (''unsubscribed'', PFloat (py_round4 unsub_rate)),
        (''bounced'', PFloat (py_round4 bounce_rate))]"
    unfolding simulate_persona_def sent_def g1_def lo_def delivered_def g2_def base_open_def
      g3_def base_click_def g4_def open_rate_def click_rate_def unsub_rate_def g5_def
      bounce_rate_def
    by (simp add: split_def Let_def)
  have s: "80 \<le> sent \<and> sent \<le> 100"
    unfolding sent_def by (rule randint_range) simp
  then have "lo \<le> sent" unfolding lo_def by (intro delivered_lower_le) simp_all
  then have d: "lo \<le> delivered \<and> delivered \<le> sent"
    unfolding delivered_def by (rule randint_range)
  obtain zo where zo: "0 \<le> zo" "base_open = fl zo"
    unfolding base_open_def using uniform_double [of "18 / 100" "35 / 100" g2] by auto
  obtain zc where zc: "0 \<le> zc" "base_click = fl zc"
    unfolding base_click_def using uniform_double [of "5 / 100" "15 / 100" g3] by auto
  have bc: "0 \<le> base_click" unfolding zc(2) using zc(1) by (rule fl_nonneg)
  have r: "engagement_rates persona (fl zo) base_click = (open_rate, click_rate)"
    by (simp add: open_rate_def click_rate_def zo(2))
  note b = engagement_rates_bounds [OF zo(1) bc r]
  have 1: "0 \<le> py_round4 click_rate" using b by (intro py_round4_nonneg) simp
  have 2: "py_round4 click_rate \<le> py_round4 open_rate"
    using b by (intro py_round4_mono) simp_all
  have "py_round4 open_rate \<le> py_round4 (fl (95 / 100))"
    using b by (intro py_round4_mono) simp_all
  then have 3: "py_round4 open_rate \<le> fl (95 / 100)" by (simp only: py_round4_95)
  from eq s d b 1 2 3 fl_95_le show ?thesis
    unfolding lo_def by blast
qed

text \<open>
  Every entry of the result was built by \<open>simulate_persona\<close> for its persona, and every
  persona of the list has an entry.
\<close>

lemma set_update_subset: "set (AList.update k v al) \<subseteq> insert (k, v) (set al)"
  by (induction al) auto

lemma simulate_loop_entries:
  "(p, v) \<in> set (fst (simulate_loop personas performance g)) \<Longrightarrow>
   (p, v) \<in> set performance \<or> (\<exists>g'. v = PDict (fst (simulate_persona p g')))"
proof (induction personas arbitrary: performance g)
  case Nil
  then show ?case by simp
next
  case (Cons persona personas)
  let ?m = "fst (simulate_persona persona g)"
  let ?g = "snd (simulate_persona persona g)"
  from Cons.prems have
    "(p, v) \<in> set (fst (simulate_loop personas (AList.update persona (PDict ?m) performance) ?g))"
    by (simp add: split_def Let_def)
  from Cons.IH [OF this] show ?case
    using set_update_subset [of persona "PDict ?m" performance] by auto
qed

lemma simulate_loop_other:
  "p \<notin> set personas \<Longrightarrow>
   map_of (fst (simulate_loop personas performance g)) p = map_of performance p"
  by (induction personas arbitrary: performance g) (auto simp: split_def Let_def update_conv')

lemma simulate_loop_keys:
  "p \<in> set personas \<Longrightarrow>
   \<exists>g'. map_of (fst (simulate_loop personas performance g)) p
           = Some (PDict (fst (simulate_persona p g')))"
proof (induction personas arbitrary: performance g)
  case Nil
  then show ?case by simp
next
  case (Cons persona personas)
  let ?m = "fst (simulate_persona persona g)"
  let ?g = "snd (simulate_persona persona g)"
  have step: "fst (simulate_loop (persona # personas) performance g)
              = fst (simulate_loop personas (AList.update persona (PDict ?m) performance) ?g)"
    by (simp add: split_def Let_def)
  show ?case
  proof (cases "p \<in> set personas")
    case True
    from Cons.IH [OF True] show ?thesis unfolding step by blast
  next
    case False
    with Cons.prems have p: "p = persona" by simp
    have "map_of (fst (simulate_loop personas (AList.update persona (PDict ?m) performance) ?g)) p
          = map_of (AList.update persona (PDict ?m) performance) p"
      using False by (rule simulate_loop_other)
    also have "\<dots> = Some (PDict ?m)" by (simp add: p update_conv')
    finally show ?thesis unfolding step p by blast
  qed
qed

text \<open>
  Claim C1. For every campaign id, every persona list and every state of the random source,
  each per-persona record returned by \<open>simulate_performance_data\<close> has the six fields
  \<open>sent\<close>, \<open>delivered\<close>, \<open>opened\<close>, \<open>clicked\<close>, \<open>unsubscribed\<close> and \<open>bounced\<close>, where
  \<open>sent\<close> is an integer in \<open>[80, 100]\<close>, \<open>delivered\<close> is an integer with
  \<open>int(sent * 0.85) \<le> delivered \<le> sent\<close>, the four rates are results of \<open>round(_, 4)\<close>,
  the click rate before rounding is at most \<open>open_rate * 0.8\<close> (the float product), and
  \<open>0 \<le> clicked \<le> opened \<le> 0.95\<close>, first against the double that the literal \<open>0.95\<close>
  denotes and hence against the real number \<open>95/100\<close>.
\<close>

theorem simulate_performance_data_metrics:
  assumes "(persona, metrics) \<in> set (fst (simulate_performance_data campaign_id personas g))"
  shows "\<exists>sent delivered open_rate click_rate unsub_rate bounce_rate.
           metrics = PDict
             [(''sent'', PInt sent), (''delivered'', PInt delivered),
              (''opened'', PFloat (py_round4 open_rate)),
              (''clicked'', PFloat (py_round4 click_rate)),
              (''unsubscribed'', PFloat (py_round4 unsub_rate)),
              (''bounced'', PFloat (py_round4 bounce_rate))]
           \<and> 80 \<le> sent \<and> sent \<le> 100
           \<and> py_int (fl (of_int sent * fl (85 / 100))) \<le> delivered \<and> delivered \<le> sent
           \<and> click_rate \<le> fl (open_rate * fl (8 / 10))
           \<and> 0 \<le> py_round4 click_rate
           \<and> py_round4 click_rate \<le> py_round4 open_rate
           \<and> py_round4 open_rate \<le> fl (95 / 100)
           \<and> fl (95 / 100) \<le> 95 / 100"
proof -
  from assms have "(persona, metrics) \<in> set (fst (simulate_loop personas [] g))"
    by (simp add: simulate_performance_data_def)
  from simulate_loop_entries [OF this]
  obtain g' where m: "metrics = PDict (fst (simulate_persona persona g'))" by auto
  from simulate_persona_metrics [of persona g'] show ?thesis unfolding m by simp
qed

text \<open>
  The run for the three registered personas from the sample random source: the record of
  \<open>founders\<close> is present, its \<open>sent\<close> is 83, and it satisfies the bounds.
\<close>

theorem simulate_performance_data_metrics_witness:
  "\<exists>metrics sent delivered open_rate click_rate unsub_rate bounce_rate.
     map_of (fst (simulate_performance_data ''campaign_20250115_093000'' persona_keys rng_demo))
       ''founders'' = Some metrics
     \<and> metrics = PDict
         [(''sent'', PInt sent), (''delivered'', PInt delivered),
          (''opened'', PFloat (py_round4 open_rate)),
          (''clicked'', PFloat (py_round4 click_rate)),
          (''unsubscribed'', PFloat (py_round4 unsub_rate)),
          (''bounced'', PFloat (py_round4 bounce_rate))]
     \<and> sent = 83
     \<and> py_int (fl (of_int sent * fl (85 / 100))) \<le> delivered \<and> delivered \<le> sent
     \<and> click_rate \<le> fl (open_rate * fl (8 / 10))
     \<and> 0 \<le> py_round4 click_rate
     \<and> py_round4 click_rate \<le> py_round4 open_rate
     \<and> py_round4 open_rate \<le> fl (95 / 100)
     \<and> fl (95 / 100) \<le> 95 / 100"
proof -
  let ?r = "fst (simulate_performance_data ''campaign_20250115_093000'' persona_keys rng_demo)"
  let ?m = "fst (simulate_persona ''founders'' rng_demo)"
  have o: "''founders'' \<notin> set [''creatives'', ''operations'']" by simp
  have r: "?r = fst (simulate_loop [''creatives'', ''operations''] [(''founders'', PDict ?m)]
                    (snd (simulate_persona ''founders'' rng_demo)))"
    unfolding simulate_performance_data_def persona_keys_eq
    by (subst simulate_loop.simps(2)) (simp add: split_def Let_def del: simulate_loop.simps(2))
  have "map_of ?r ''founders'' = map_of [(''founders'', PDict ?m)] ''founders''"
    unfolding r using o by (rule simulate_loop_other)
  then have k: "map_of ?r ''founders'' = Some (PDict ?m)" by simp
  have s: "map_of ?m ''sent'' = Some (PInt 83)"
    by (simp add: simulate_persona_def split_def Let_def randint_def next_raw_def rng_demo_def)
  from simulate_performance_data_metrics [OF map_of_SomeD [OF k]]
  obtain sent delivered open_rate click_rate unsub_rate bounce_rate where
    e: "PDict ?m = PDict
         [(''sent'', PInt sent), (''delivered'', PInt delivered),
          (''opened'', PFloat (py_round4 open_rate)),
          (''clicked'', PFloat (py_round4 click_rate)),
          (''unsubscribed'', PFloat (py_round4 unsub_rate)),
          (''bounced'', PFloat (py_round4 bounce_rate))]"
    and b: "py_int (fl (of_int sent * fl (85 / 100))) \<le> delivered" "delivered \<le> sent"
      "click_rate \<le> fl (open_rate * fl (8 / 10))"
      "0 \<le> py_round4 click_rate"
      "py_round4 click_rate \<le> py_round4 open_rate"
      "py_round4 open_rate \<le> fl (95 / 100)"
      "fl (95 / 100) \<le> (95 / 100 :: rat)"
    by blast
  from e s have "sent = 83" by simp
  with k e b show ?thesis by blast
qed

subsection \<open>Runs in which variations were not requested\<close>

lemma data_dirs:
  "CONTENT_DIR = ''data/generated_content''"
  "CAMPAIGNS_DIR = ''data/campaigns''"
  "ANALYTICS_DIR = ''data/analytics''"
  by (simp_all add: CONTENT_DIR_def CAMPAIGNS_DIR_def ANALYTICS_DIR_def DATA_DIR_def
        os_path_join_def startswith_def endswith_def)

text \<open>On a one-character string the test of an element is the test of the character.\<close>

lemma filename_item_char: "filename_item [c] = filename_char c"
  by (simp add: filename_item_def str_isalnum_def filename_char_def)

lemma sanitize_filename_title_demo:
  "sanitize_filename ''Automating Client Onboarding'' = ''Automating Client Onboarding''"
  by (simp add: sanitize_filename_def filename_char_def isalnum_def isspace_def rstrip_def)

lemma sanitize_filename_value_list_demo:
  "sanitize_filename_value (PList [PStr ''a'', PStr ''b'']) = Inr ''ab''"
  by (simp add: sanitize_filename_value_def filename_item_def str_isalnum_def isalnum_def
        isspace_def rstrip_def)

lemma improvement_filename_fresh:
  "improvement_filename cid \<noteq> content_filename name cid'"
  "improvement_filename cid \<noteq> campaign_filename cid'"
  "improvement_filename cid \<noteq> performance_filename cid"
  "improvement_filename cid \<noteq> summary_filename cid"
  by (simp_all add: improvement_filename_def content_filename_def campaign_filename_def
        performance_filename_def summary_filename_def data_dirs)

lemma not_under_content_dir:
  "\<not> startswith (campaign_filename cid) (CONTENT_DIR @ ''/'')"
  "\<not> startswith (performance_filename cid) (CONTENT_DIR @ ''/'')"
  "\<not> startswith (summary_filename cid) (CONTENT_DIR @ ''/'')"
  by (simp_all add: campaign_filename_def performance_filename_def summary_filename_def
        data_dirs startswith_def)

lemma content_artifact_variations:
  "subscript (content_artifact e cid topic blog newsletters variations) ''variations''
     = Inr variations"
  by (simp add: content_artifact_def subscript_def dict_item_def)

text \<open>
  The files of a run without variations: nothing, or the content artifact with the
  empty list as its variations, followed by at most the log, the metrics and the summary.
\<close>

lemma run_pipeline_unrequested:
  "fst (run_pipeline sv e g topic m False) = []
   \<or> (\<exists>name newsletters rest.
        fst (run_pipeline sv e g topic m False)
          = (content_filename name (generate_campaign_id sv),
             content_artifact e (generate_campaign_id sv) topic (generate_blog_post sv topic)
               newsletters (PList [])) # rest
        \<and> set (map fst rest) \<subseteq> {campaign_filename (generate_campaign_id sv),
                                 performance_filename (generate_campaign_id sv),
                                 summary_filename (generate_campaign_id sv)})"
  unfolding run_pipeline_def variations_step_def save_json_def Let_def
  by (auto split: sum.splits prod.splits)

lemma run_pipeline_async_unrequested:
  "fst (run_pipeline_async sv e g cid topic False) = []
   \<or> (\<exists>name newsletters rest.
        fst (run_pipeline_async sv e g cid topic False)
          = (content_filename name cid,
             content_artifact e cid topic (generate_blog_post sv topic)
               newsletters (PList [])) # rest
        \<and> set (map fst rest) \<subseteq> {campaign_filename cid, performance_filename cid,
                                 summary_filename cid})"
  unfolding run_pipeline_async_def dashboard_variations_def save_json_def Let_def
  by (auto split: sum.splits prod.splits)

text \<open>
  The content artifact is the first file of every run that gets past the generation and
  whose title can be turned into a file name, whatever the type of the title.
\<close>

lemma run_pipeline_first_write:
  assumes "read_blog (generate_blog_post sv topic) = Inr (title, content)"
    and "variations_step sv content req = Inr variations"
    and "newsletters_step sv (generate_blog_post sv topic) = Inr newsletters"
    and "sanitize_filename_value title = Inr name"
  shows "\<exists>rest. fst (run_pipeline sv e g topic m req)
           = (content_filename name (generate_campaign_id sv),
              content_artifact e (generate_campaign_id sv) topic (generate_blog_post sv topic)
                newsletters variations) # rest"
  unfolding run_pipeline_def save_json_def Let_def using assms
  by (auto split: sum.splits prod.splits)

lemma run_pipeline_async_first_write:
  assumes "dashboard_title (generate_blog_post sv topic) = Inr title"
    and "dashboard_newsletters sv (generate_blog_post sv topic) = Inr newsletters"
    and "dashboard_variations sv (generate_blog_post sv topic) req = Inr variations"
    and "sanitize_filename_value title = Inr name"
  shows "\<exists>rest. fst (run_pipeline_async sv e g cid topic req)
           = (content_filename name cid,
              content_artifact e cid topic (generate_blog_post sv topic)
                newsletters variations) # rest"
  unfolding run_pipeline_async_def save_json_def Let_def using assms
  by (auto split: sum.splits prod.splits)


text \<open>
  A run of the command line whose title is the list \<open>['a', 'b']\<close>: the title is joined
  to \<open>ab\<close> and the run writes its four files.
\<close>

lemma distribute_list_title_demo:
  "\<exists>campaign_log g'.
     distribute True (crm_init None) env_demo ''campaign_20250115_093000''
       (PList [PStr ''a'', PStr ''b'']) (PDict newsletters_demo) [] rng_demo
     = (Inr campaign_log, crm_init None, g')"
  by (simp add: distribute_def segment_contacts_def send_campaign_def crm_init_def
        check_marketing_access_def mock_campaign_distribution_def dict_item_def dict_items_def
        newsletters_demo_def subscript_def randint_def next_raw_def rng_demo_def
        distribution_summary_def log_campaign_def dict_get_def split_def Let_def)

lemma run_pipeline_list_title_demo:
  "map fst (fst (run_pipeline services_list_title env_demo rng_demo
                   ''Automating Client Onboarding'' False False))
   = [content_filename ''ab'' ''campaign_20250115_093000'',
      campaign_filename ''campaign_20250115_093000'',
      performance_filename ''campaign_20250115_093000'',
      summary_filename ''campaign_20250115_093000'']"
proof -
  obtain campaign_log g' where d:
    "distribute True (crm_init None) env_demo ''campaign_20250115_093000''
       (PList [PStr ''a'', PStr ''b'']) (PDict newsletters_demo) [] rng_demo
     = (Inr campaign_log, crm_init None, g')"
    using distribute_list_title_demo by blast
  have b: "read_blog blog_list_title
           = Inr (PList [PStr ''a'', PStr ''b''], ''Onboarding takes time. Automate it.'')"
    by (simp add: blog_list_title_def read_blog_def dict_item_def)
  have n: "newsletters_step services_list_title blog_list_title = Inr (PDict newsletters_demo)"
    by (simp add: newsletters_step_def services_list_title_def services_demo_def dict_items_def
          newsletters_demo_def subscript_def dict_item_def)
  have p: "print_summary summary_demo = Inr ()"
    by (simp add: print_summary_def summary_demo_def subscript_def dict_item_def py_len_def)
  have s: "generate_blog_post services_list_title ''Automating Client Onboarding''
             = blog_list_title"
      "hubspot_api_key services_list_title = None"
      "generate_campaign_id services_list_title = ''campaign_20250115_093000''"
      "generate_performance_summary services_list_title = (\<lambda>performance_data title. Inr summary_demo)"
    by (simp_all add: services_list_title_def services_demo_def)
  show ?thesis
    unfolding run_pipeline_def
    by (simp add: s b n p d variations_step_def sanitize_filename_value_list_demo save_json_def
          split_def Let_def)
qed

text \<open>
  Claim C7, as stated, fails for the content artifact. In the run of the sample services
  without variations the content artifact is written, and it holds a \<open>variations\<close>
  entry: the empty list.
\<close>

theorem variations_placeholder_counterexample:
  "(content_filename ''Automating Client Onboarding'' ''campaign_20250115_093000'',
    PDict [(''campaign_id'', PStr ''campaign_20250115_093000''),
           (''topic'', PStr ''Automating Client Onboarding''),
           (''blog'', PDict blog_demo),
           (''newsletters'', PDict newsletters_demo),
           (''variations'', PList []),
           (''created_at'', PStr ''2025-01-15T09:30:00.000000'')])
     \<in> set (fst (run_pipeline services_demo env_demo rng_demo
                    ''Automating Client Onboarding'' True False))"
proof -
  have b: "read_blog (generate_blog_post services_demo ''Automating Client Onboarding'')
           = Inr (PStr ''Automating Client Onboarding'',
                  ''Onboarding takes time. Automate it.'')"
    by (simp add: services_demo_def blog_demo_def read_blog_def dict_item_def)
  have v: "variations_step services_demo ''Onboarding takes time. Automate it.'' False
           = Inr (PList [])"
    by (simp add: variations_step_def)
  have n: "newsletters_step services_demo
             (generate_blog_post services_demo ''Automating Client Onboarding'')
           = Inr (PDict newsletters_demo)"
    by (simp add: newsletters_step_def services_demo_def dict_items_def newsletters_demo_def
          subscript_def dict_item_def)
  have s: "sanitize_filename_value (PStr ''Automating Client Onboarding'')
           = Inr ''Automating Client Onboarding''"
    by (simp add: sanitize_filename_value_def sanitize_filename_title_demo)
  from run_pipeline_first_write [OF b v n s, of env_demo rng_demo True]
  show ?thesis
    by (auto simp: content_artifact_def services_demo_def env_demo_def)
qed

text \<open>
  Claim C7, amended. In every run in which variations were not requested, of the
  command line and of the dashboard alike, no file is written at the improvements path,
  and a file written under the content directory (the content artifact) holds a
  \<open>variations\<close> entry whose value is the empty list.
\<close>

theorem variations_not_requested:
  "improvement_filename (generate_campaign_id sv)
      \<notin> set (map fst (fst (run_pipeline sv e g topic use_mock_contacts False)))
   \<and> (\<forall>(path, data)\<in>set (fst (run_pipeline sv e g topic use_mock_contacts False)).
         startswith path (CONTENT_DIR @ ''/'') \<longrightarrow>
         subscript data ''variations'' = Inr (PList []))
   \<and> improvement_filename campaign_id
      \<notin> set (map fst (fst (run_pipeline_async sv e g campaign_id topic False)))
   \<and> (\<forall>(path, data)\<in>set (fst (run_pipeline_async sv e g campaign_id topic False)).
         startswith path (CONTENT_DIR @ ''/'') \<longrightarrow>
         subscript data ''variations'' = Inr (PList []))"
proof -
  have shape: "improvement_filename cid \<notin> set (map fst ws)
               \<and> (\<forall>(path, data)\<in>set ws. startswith path (CONTENT_DIR @ ''/'') \<longrightarrow>
                     subscript data ''variations'' = Inr (PList []))"
    if "ws = [] \<or> (\<exists>name newsletters rest.
           ws = (content_filename name cid,
                 content_artifact e cid topic blog newsletters (PList [])) # rest
           \<and> set (map fst rest) \<subseteq> {campaign_filename cid, performance_filename cid,
                                    summary_filename cid})"
    for ws :: writes and cid blog
    using that
  proof
    assume "ws = []"
    then show ?thesis by simp
  next
    assume "\<exists>name newsletters rest.
           ws = (content_filename name cid,
                 content_artifact e cid topic blog newsletters (PList [])) # rest
           \<and> set (map fst rest) \<subseteq> {campaign_filename cid, performance_filename cid,
                                    summary_filename cid}"
    then obtain name newsletters rest where
      ws: "ws = (content_filename name cid,
                 content_artifact e cid topic blog newsletters (PList [])) # rest"
      and r: "set (map fst rest) \<subseteq> {campaign_filename cid, performance_filename cid,
                                      summary_filename cid}"
      by blast
    have 1: "improvement_filename cid \<notin> set (map fst ws)"
      using r improvement_filename_fresh [of cid] by (auto simp: ws)
    have 2: "\<forall>(path, data)\<in>set ws. startswith path (CONTENT_DIR @ ''/'') \<longrightarrow>
                     subscript data ''variations'' = Inr (PList [])"
      using r not_under_content_dir [of cid]
      by (auto simp: ws content_artifact_variations)
    from 1 2 show ?thesis ..
  qed
  from shape [OF run_pipeline_unrequested] shape [OF run_pipeline_async_unrequested]
  show ?thesis by blast
qed

text \<open>
  Three sample runs without variations. The command-line run of the sample services writes
  the content artifact under the content directory; the command-line run whose title is the
  list \<open>['a', 'b']\<close> writes four files, the first of them the content artifact at
  \<open>ab_<campaign id>.json\<close>; the dashboard run with that title writes the same artifact.
  In each the artifact holds the empty list of variations and no improvements file is
  written.
\<close>

theorem variations_not_requested_witness:
  "(content_filename ''Automating Client Onboarding'' ''campaign_20250115_093000'',
    content_artifact env_demo ''campaign_20250115_093000'' ''Automating Client Onboarding''
      blog_demo (PDict newsletters_demo) (PList []))
     \<in> set (fst (run_pipeline services_demo env_demo rng_demo
                    ''Automating Client Onboarding'' True False))
   \<and> startswith (content_filename ''Automating Client Onboarding'' ''campaign_20250115_093000'')
        (CONTENT_DIR @ ''/'')
   \<and> subscript (content_artifact env_demo ''campaign_20250115_093000''
        ''Automating Client Onboarding'' blog_demo (PDict newsletters_demo) (PList []))
        ''variations'' = Inr (PList [])
   \<and> improvement_filename ''campaign_20250115_093000''
      \<notin> set (map fst (fst (run_pipeline services_demo env_demo rng_demo
                             ''Automating Client Onboarding'' True False)))
   \<and> map fst (fst (run_pipeline services_list_title env_demo rng_demo
                      ''Automating Client Onboarding'' False False))
      = [content_filename ''ab'' ''campaign_20250115_093000'',
         campaign_filename ''campaign_20250115_093000'',
         performance_filename ''campaign_20250115_093000'',
         summary_filename ''campaign_20250115_093000'']
   \<and> (content_filename ''ab'' ''campaign_20250115_093000'',
       content_artifact env_demo ''campaign_20250115_093000'' ''Automating Client Onboarding''
         blog_list_title (PDict newsletters_demo) (PList []))
     \<in> set (fst (run_pipeline services_list_title env_demo rng_demo
                    ''Automating Client Onboarding'' False False))
   \<and> startswith (content_filename ''ab'' ''campaign_20250115_093000'') (CONTENT_DIR @ ''/'')
   \<and> subscript (content_artifact env_demo ''campaign_20250115_093000''
        ''Automating Client Onboarding'' blog_list_title (PDict newsletters_demo) (PList []))
        ''variations'' = Inr (PList [])
   \<and> improvement_filename ''campaign_20250115_093000''
      \<notin> set (map fst (fst (run_pipeline services_list_title env_demo rng_demo
                             ''Automating Client Onboarding'' False False)))
   \<and> (content_filename ''ab'' ''campaign_20250115_093000'',
       content_artifact env_demo ''campaign_20250115_093000'' ''Automating Client Onboarding''
         blog_list_title (PDict newsletters_demo) (PList []))
     \<in> set (fst (run_pipeline_async services_list_title env_demo rng_demo
                    ''campaign_20250115_093000'' ''Automating Client Onboarding'' False))
   \<and> improvement_filename ''campaign_20250115_093000''
      \<notin> set (map fst (fst (run_pipeline_async services_list_title env_demo rng_demo
                             ''campaign_20250115_093000'' ''Automating Client Onboarding''
                             False)))"
proof -
  let ?cid = "''campaign_20250115_093000''"
  let ?topic = "''Automating Client Onboarding''"
  let ?ws = "fst (run_pipeline services_demo env_demo rng_demo ?topic True False)"
  let ?wl = "fst (run_pipeline services_list_title env_demo rng_demo ?topic False False)"
  let ?wd = "fst (run_pipeline_async services_list_title env_demo rng_demo ?cid ?topic False)"
  let ?c = "content_artifact env_demo ?cid ?topic blog_demo (PDict newsletters_demo) (PList [])"
  let ?cl = "content_artifact env_demo ?cid ?topic blog_list_title (PDict newsletters_demo)
               (PList [])"
  let ?p = "content_filename ?topic ?cid"
  let ?pl = "content_filename ''ab'' ?cid"
  have b: "read_blog (generate_blog_post services_demo ?topic)
           = Inr (PStr ?topic, ''Onboarding takes time. Automate it.'')"
    by (simp add: services_demo_def blog_demo_def read_blog_def dict_item_def)
  have v: "variations_step services_demo ''Onboarding takes time. Automate it.'' False
           = Inr (PList [])"
    by (simp add: variations_step_def)
  have n: "newsletters_step services_demo (generate_blog_post services_demo ?topic)
           = Inr (PDict newsletters_demo)"
    by (simp add: newsletters_step_def services_demo_def dict_items_def newsletters_demo_def
          subscript_def dict_item_def)
  have sn: "sanitize_filename_value (PStr ?topic) = Inr ?topic"
    by (simp add: sanitize_filename_value_def sanitize_filename_title_demo)
  from run_pipeline_first_write [OF b v n sn, of env_demo rng_demo True]
  have m: "(?p, ?c) \<in> set ?ws" by (auto simp: services_demo_def)
  have s: "startswith ?p (CONTENT_DIR @ ''/'')" "startswith ?pl (CONTENT_DIR @ ''/'')"
    by (simp_all add: content_filename_def startswith_def)
  have i: "generate_campaign_id services_demo = ?cid"
    "generate_campaign_id services_list_title = ?cid"
    by (simp_all add: services_list_title_def services_demo_def)
  have gl: "generate_blog_post services_list_title ?topic = blog_list_title"
    by (simp add: services_list_title_def)
  have bl: "read_blog (generate_blog_post services_list_title ?topic)
           = Inr (PList [PStr ''a'', PStr ''b''], ''Onboarding takes time. Automate it.'')"
    by (simp add: gl blog_list_title_def read_blog_def dict_item_def)
  have vl: "variations_step services_list_title ''Onboarding takes time. Automate it.'' False
           = Inr (PList [])"
    by (simp add: variations_step_def)
  have nl: "newsletters_step services_list_title
              (generate_blog_post services_list_title ?topic)
           = Inr (PDict newsletters_demo)"
    by (simp add: newsletters_step_def services_list_title_def services_demo_def
          dict_items_def newsletters_demo_def subscript_def dict_item_def)
  from run_pipeline_first_write [OF bl vl nl sanitize_filename_value_list_demo,
         of env_demo rng_demo False]
  have ml: "(?pl, ?cl) \<in> set ?wl" by (auto simp: i gl)
  have dt: "dashboard_title (generate_blog_post services_list_title ?topic)
            = Inr (PList [PStr ''a'', PStr ''b''])"
    by (simp add: gl blog_list_title_def dashboard_title_def dict_item_def)
  have dn: "dashboard_newsletters services_list_title
              (generate_blog_post services_list_title ?topic)
            = Inr (PDict newsletters_demo)"
    by (simp add: dashboard_newsletters_def services_list_title_def services_demo_def
          py_len_def)
  have dv: "dashboard_variations services_list_title
              (generate_blog_post services_list_title ?topic) False = Inr (PList [])"
    by (simp add: dashboard_variations_def)
  from run_pipeline_async_first_write [OF dt dn dv sanitize_filename_value_list_demo,
         of env_demo rng_demo ?cid]
  have md: "(?pl, ?cl) \<in> set ?wd" by (auto simp: gl)
  note t = variations_not_requested [of services_demo env_demo rng_demo ?topic True ?cid,
             unfolded i]
  note tl = variations_not_requested [of services_list_title env_demo rng_demo ?topic False
              ?cid, unfolded i]
  from t m s have 1: "subscript ?c ''variations'' = Inr (PList [])" by blast
  from t have 2: "improvement_filename ?cid \<notin> set (map fst ?ws)" by blast
  from tl ml s have 3: "subscript ?cl ''variations'' = Inr (PList [])" by blast
  from tl have 4: "improvement_filename ?cid \<notin> set (map fst ?wl)" by blast
  from tl have 5: "improvement_filename ?cid \<notin> set (map fst ?wd)" by blast
  from m s 1 2 run_pipeline_list_title_demo ml 3 4 md 5 show ?thesis by blast
qed

subsection \<open>Saving and loading\<close>

lemma open_write_file:
  "open_write fs path content = Inr fs' \<Longrightarrow> fs' path = Some (File content)"
  by (auto simp: open_write_def split: if_splits)

text \<open>
  When \<open>save_json\<close> returns, the file at the path holds the text the encoder produced, and
  \<open>load_json\<close> hands that text to the decoder.
\<close>

lemma save_json_file_text:
  assumes "save_json_file dumps fs data filepath = Inr fs'"
  shows "open_read fs' filepath = Inr (dumps data)"
proof -
  from assms obtain fs1 where "open_write fs1 filepath (dumps data) = Inr fs'"
    by (auto simp: save_json_file_def split: sum.splits)
  then have "fs' filepath = Some (File (dumps data))" by (rule open_write_file)
  then show ?thesis by (simp add: open_read_def)
qed

lemma load_json_after_save_json:
  assumes "save_json_file dumps fs data filepath = Inr fs'"
  shows "load_json loads fs' filepath
         = (case loads (dumps data) of None \<Rightarrow> Inl JSONDecodeError | Some v \<Rightarrow> Inr v)"
  using save_json_file_text [OF assms] by (simp add: load_json_def json_load_file_def)

text \<open>A path without a directory part cannot be saved, whatever the file system holds.\<close>

lemma save_json_no_directory:
  "os_path_dirname filepath = [] \<Longrightarrow>
   save_json_file dumps fs data filepath = Inl FileNotFoundError"
  by (simp add: save_json_file_def os_makedirs_def)

lemma os_path_dirname_no_slash:
  "CHR ''/'' \<notin> set p \<Longrightarrow> os_path_dirname p = []"
proof -
  assume "CHR ''/'' \<notin> set p"
  then have "dropWhile (\<lambda>c. c \<noteq> CHR ''/'') (rev p) = []" by auto
  then show ?thesis by (simp add: os_path_dirname_def)
qed

text \<open>
  Claim C5. The claim is that for every value and every path, \<open>load_json(path)\<close> after
  \<open>save_json(value, path)\<close> returns the value saved. For the path \<open>summary.json\<close> the
  save raises \<open>FileNotFoundError\<close>, for every value, every encoder and every file system:
  the directory part of the path is empty and \<open>os.makedirs('')\<close> raises. On the sample
  file system nothing has been written, so \<open>load_json('summary.json')\<close> raises as well.
  On that same file system the save to \<open>data/analytics/summary.json\<close> returns and leaves
  the encoded text in the file: only the missing directory part makes the difference.
\<close>

theorem save_json_bare_filename:
  "save_json_file dumps fs data ''summary.json'' = Inl FileNotFoundError
   \<and> load_json loads fs_demo ''summary.json'' = Inl FileNotFoundError
   \<and> (\<exists>fs'. save_json_file dumps fs_demo data ''data/analytics/summary.json'' = Inr fs'
            \<and> open_read fs' ''data/analytics/summary.json'' = Inr (dumps data))"
proof -
  have 1: "save_json_file dumps fs data ''summary.json'' = Inl FileNotFoundError"
    by (simp add: save_json_file_def os_makedirs_def os_path_dirname_def)
  have 2: "load_json loads fs_demo ''summary.json'' = Inl FileNotFoundError"
    by (simp add: load_json_def json_load_file_def open_read_def fs_demo_def)
  have d: "os_path_dirname ''data/analytics/summary.json'' = ''data/analytics''"
    by (simp add: os_path_dirname_def)
  have a: "ancestors ''data/analytics'' = [''data'']"
    by (simp add: ancestors_def upt_conv_Cons)
  have m: "os_makedirs fs_demo ''data/analytics'' = Inr fs_demo"
    by (auto simp: os_makedirs_def a is_file_def fs_demo_def)
  have b: "ancestors ''data/analytics/summary.json'' = [''data'', ''data/analytics'']"
    by (simp add: ancestors_def upt_conv_Cons)
  have o: "open_write fs_demo ''data/analytics/summary.json'' (dumps data)
           = Inr (fs_demo(''data/analytics/summary.json'' := Some (File (dumps data))))"
    by (simp add: open_write_def b is_file_def fs_demo_def endswith_def)
  have s: "save_json_file dumps fs_demo data ''data/analytics/summary.json''
           = Inr (fs_demo(''data/analytics/summary.json'' := Some (File (dumps data))))"
    unfolding save_json_file_def d m by (simp add: o)
  have 3: "open_read (fs_demo(''data/analytics/summary.json'' := Some (File (dumps data))))
             ''data/analytics/summary.json'' = Inr (dumps data)"
    by (simp add: open_read_def)
  from 1 2 s 3 show ?thesis by blast
qed

end
